theory Spec2Isabelle
  imports Complex_Main "HOL-Library.Monad_Syntax"
begin

section \<open>JavaScript strings and numbers\<close>

text \<open>
  The handlers work on wall-clock strings \<^verbatim>\<open>HH:MM\<close>. A JavaScript number that the code
  obtains from such a string is an \<open>int option\<close>: \<open>None\<close> is \<^verbatim>\<open>NaN\<close>, which makes
  every comparison false. A duration is a number that the schema only bounds: it need
  not be whole, and is a \<open>rat\<close>. Sums, quotients and remainders are exact here.
  JavaScript keeps 53 significant bits of them: that is exact, too, on whole numbers,
  their halves and their quarters, and on the sum of a time of the day in minutes and a
  duration it moves the result by less than \<open>2^-42\<close>, so that a comparison with a whole
  number of minutes comes out as the exact one unless the duration exceeds a whole
  number by less than that.
\<close>

definition is_digit :: "char \<Rightarrow> bool" where
  "is_digit c = (48 \<le> (of_char c :: nat) \<and> (of_char c :: nat) \<le> 57)"

definition digit_val :: "char \<Rightarrow> int" where
  "digit_val c = int (of_char c) - 48"

fun dec :: "int \<Rightarrow> string \<Rightarrow> int" where
  "dec acc [] = acc"
| "dec acc (c # cs) = dec (acc * 10 + digit_val c) cs"

text \<open>
  \<^verbatim>\<open>Number(s)\<close>, restricted to the strings that the schema's time pattern admits
  between the colons: the empty string is 0 and a string of decimal digits is its
  value. On any other string (blanks, signs, points, exponents, hexadecimal) this
  definition says \<^verbatim>\<open>NaN\<close> where JavaScript may give a number, so it is used on
  times that match the pattern only: every theorem about it has that hypothesis on
  the times it reads. \<^verbatim>\<open>Number(undefined)\<close> is \<^verbatim>\<open>NaN\<close>.
\<close>

definition Number :: "string option \<Rightarrow> int option" where
  "Number v = (case v of
       None \<Rightarrow> None
     | Some s \<Rightarrow> (if list_all is_digit s then Some (dec 0 s) else None))"

text \<open>
  \<^verbatim>\<open>parseInt(s)\<close>, under the same restriction: the longest prefix of decimal digits,
  \<^verbatim>\<open>NaN\<close> when there is none.
\<close>

definition parseInt :: "string option \<Rightarrow> int option" where
  "parseInt v = (case v of
       None \<Rightarrow> None
     | Some s \<Rightarrow> (if takeWhile is_digit s = [] then None
                 else Some (dec 0 (takeWhile is_digit s))))"

text \<open>\<^verbatim>\<open>s.split(c)\<close> for a one-character separator.\<close>

fun split :: "char \<Rightarrow> string \<Rightarrow> string list" where
  "split c [] = [[]]"
| "split c (x # xs) =
     (if x = c then [] # split c xs
      else (case split c xs of
              [] \<Rightarrow> [[x]]
            | p # ps \<Rightarrow> (x # p) # ps))"

text \<open>Array destructuring \<^verbatim>\<open>[a, b] = xs\<close>: a missing element is \<^verbatim>\<open>undefined\<close>.\<close>

definition element :: "'a list \<Rightarrow> nat \<Rightarrow> 'a option" where
  "element xs i = (if i < length xs then Some (xs ! i) else None)"

definition digit_char :: "nat \<Rightarrow> char" where
  "digit_char n = ''0123456789'' ! n"

function nat_digits :: "nat \<Rightarrow> string" where
  "nat_digits n =
     (if n < 10 then [digit_char n]
      else nat_digits (n div 10) @ [digit_char (n mod 10)])"
  by pat_completeness auto
termination
  by (relation "measure (\<lambda>n. n)") auto

declare nat_digits.simps [simp del]

text \<open>The decimal digits of a whole number, with its sign.\<close>

definition integer_digits :: "int \<Rightarrow> string" where
  "integer_digits i = (if i < 0 then CHR ''-'' # nat_digits (nat (- i)) else nat_digits (nat i))"

text \<open>The digits after the point of a number between 0 and 1, at most \<open>n\<close> of them.\<close>

fun fraction_digits :: "nat \<Rightarrow> rat \<Rightarrow> string" where
  "fraction_digits 0 x = []"
| "fraction_digits (Suc n) x =
     (if x = 0 then []
      else digit_char (nat \<lfloor>x * 10\<rfloor>) # fraction_digits n (x * 10 - of_int \<lfloor>x * 10\<rfloor>))"

text \<open>
  \<^verbatim>\<open>x.toString()\<close>: a whole number is written with its digits; another number with
  the digits before the point, the point and the digits after it. That is how
  JavaScript writes a number between \<open>10^-6\<close> and \<open>10^21\<close> whose decimal expansion has
  at most 15 significant digits (22.5, 7.25). For the others it writes the shortest
  digits that read back as the same number, which this definition does not compute: it
  gives the first 20 places of the expansion.
\<close>

definition toString :: "rat \<Rightarrow> string" where
  "toString x =
     (if x = of_int \<lfloor>x\<rfloor> then integer_digits \<lfloor>x\<rfloor>
      else (if x < 0 then ''-'' else []) @ nat_digits (nat \<lfloor>\<bar>x\<bar>\<rfloor>) @ ''.'' @
           fraction_digits 20 (\<bar>x\<bar> - of_int \<lfloor>\<bar>x\<bar>\<rfloor>))"

definition padStart :: "nat \<Rightarrow> char \<Rightarrow> string \<Rightarrow> string" where
  "padStart n c s = replicate (n - length s) c @ s"

text \<open>
  The remainder operator \<^verbatim>\<open>a % b\<close> for a divisor other than 0: what is left of \<open>a\<close>
  once \<open>b\<close> is taken out of it as many whole times as it goes, counted towards zero, so
  that the result has the sign of the dividend.
\<close>

definition js_rem :: "rat \<Rightarrow> rat \<Rightarrow> rat" where
  "js_rem a b =
     (if a / b < 0 then a - b * of_int \<lceil>a / b\<rceil> else a - b * of_int \<lfloor>a / b\<rfloor>)"

text \<open>Comparison of two numbers: false as soon as one side is \<^verbatim>\<open>NaN\<close>.\<close>

definition js_lt :: "'a::linorder option \<Rightarrow> 'a option \<Rightarrow> bool" where
  "js_lt a b = (case (a, b) of (Some x, Some y) \<Rightarrow> x < y | _ \<Rightarrow> False)"

definition js_gt :: "'a::linorder option \<Rightarrow> 'a option \<Rightarrow> bool" where
  "js_gt a b = (case (a, b) of (Some x, Some y) \<Rightarrow> x > y | _ \<Rightarrow> False)"

text \<open>A string is falsy exactly when it is empty; a missing field is \<^verbatim>\<open>undefined\<close>.\<close>

definition truthy :: "string option \<Rightarrow> bool" where
  "truthy v = (case v of None \<Rightarrow> False | Some s \<Rightarrow> s \<noteq> [])"

section \<open>The appointment model\<close>

type_synonym objectId = nat

text \<open>A date is the number of milliseconds since the epoch that a \<^verbatim>\<open>Date\<close> holds.\<close>

type_synonym date = int

record prescription =
  rx_medication :: string
  rx_dosage :: string
  rx_frequency :: string
  rx_duration :: string
  rx_instructions :: "string option"

record appointment =
  a_id :: objectId
  a_patient :: objectId
  a_doctor :: objectId
  a_type :: string
  a_status :: string
  a_date :: date
  a_time :: string
  a_duration :: rat
  a_reason :: string
  a_notes :: "string option"
  a_symptoms :: "string list"
  a_diagnosis :: "string option"
  a_treatment :: "string option"
  a_prescriptions :: "prescription list"
  a_followUpRequired :: bool
  a_followUpDate :: "date option"
  a_createdBy :: objectId
  a_updatedBy :: "objectId option"
  a_createdAt :: date
  a_updatedAt :: date

text \<open>
  The schema's pattern for \<open>time\<close>:
  \<^verbatim>\<open>/^([0-1]?[0-9]|2[0-3]):[0-5][0-9]$/\<close>.
\<close>

definition char_in :: "char \<Rightarrow> nat \<Rightarrow> nat \<Rightarrow> bool" where
  "char_in c lo hi = (48 + lo \<le> (of_char c :: nat) \<and> (of_char c :: nat) \<le> 48 + hi)"

fun time_match :: "string \<Rightarrow> bool" where
  "time_match [h, c, m1, m2] =
     (char_in h 0 9 \<and> c = CHR '':'' \<and> char_in m1 0 5 \<and> char_in m2 0 9)"
| "time_match [h1, h2, c, m1, m2] =
     (((char_in h1 0 1 \<and> char_in h2 0 9) \<or> (h1 = CHR ''2'' \<and> char_in h2 0 3))
      \<and> c = CHR '':'' \<and> char_in m1 0 5 \<and> char_in m2 0 9)"
| "time_match _ = False"

subsection \<open>The virtual \<open>endTime\<close>\<close>

definition endTime :: "appointment \<Rightarrow> string" where
  "endTime this =
     (let parts = split CHR '':'' (a_time this);
          hours = element parts 0;
          minutes = element parts 1;
          endMinutes = do {
            h \<leftarrow> parseInt hours;
            m \<leftarrow> parseInt minutes;
            Some (of_int (h * 60 + m) + a_duration this)
          }
      in case endMinutes of
           None \<Rightarrow> ''NaN:NaN''
         | Some e \<Rightarrow>
             padStart 2 CHR ''0'' (toString (of_int \<lfloor>e / 60\<rfloor>)) @ '':'' @
             padStart 2 CHR ''0'' (toString (js_rem e 60)))"

section \<open>Patients, accounts, the datastore and responses\<close>

record address =
  ad_street :: string
  ad_city :: string
  ad_state :: string
  ad_zipCode :: string
  ad_country :: string

record emergencyContact =
  ec_name :: string
  ec_relationship :: string
  ec_phone :: string
  ec_email :: "string option"

record medicalHistoryEntry =
  mh_condition :: string
  mh_diagnosedDate :: "date option"
  mh_status :: string
  mh_notes :: "string option"

record medication =
  med_name :: string
  med_dosage :: string
  med_frequency :: string
  med_startDate :: date
  med_endDate :: "date option"
  med_prescribedBy :: string
  med_isActive :: bool

record allergy =
  al_allergen :: string
  al_severity :: string
  al_reaction :: "string option"

record patient =
  p_id :: objectId
  p_firstName :: string
  p_lastName :: string
  p_email :: string
  p_phone :: string
  p_dateOfBirth :: date
  p_gender :: string
  p_address :: address
  p_emergencyContact :: emergencyContact
  p_medicalHistory :: "medicalHistoryEntry list"
  p_currentMedications :: "medication list"
  p_allergies :: "allergy list"
  p_bloodType :: "string option"
  p_insuranceProvider :: "string option"
  p_insuranceNumber :: "string option"
  p_primaryDoctor :: "objectId option"
  p_isActive :: bool
  p_profileImage :: "string option"
  p_notes :: "string option"
  p_createdAt :: date
  p_updatedAt :: date

text \<open>An account, with the fields of \<^verbatim>\<open>IUser\<close> (\<^verbatim>\<open>src/types/index.ts\<close>).\<close>

record user =
  u_id :: objectId
  u_username :: string
  u_email :: string
  u_password :: string
  u_firstName :: string
  u_lastName :: string
  u_role :: string
  u_isActive :: bool
  u_lastLogin :: "date option"
  u_profileImage :: "string option"

text \<open>
  The datastore: one list of documents per collection, in the order the store returns
  them for a query without a sort.
\<close>

record db =
  patients :: "patient list"
  users :: "user list"
  appointments :: "appointment list"

text \<open>
  The response envelope \<^verbatim>\<open>{success, message?, data?}\<close> with its HTTP status.
  \<^verbatim>\<open>populate\<close> only joins referenced documents into the serialised answer; the
  payload here is the document itself.
\<close>

datatype payload =
    No_data
  | Availability_data string "string list" "(string \<times> rat) list"
  | Appointment_data appointment
  | Patient_data patient
  | User_data user

record response =
  res_status :: nat
  res_success :: bool
  res_message :: "string option"
  res_data :: payload

definition failure :: "nat \<Rightarrow> string \<Rightarrow> response" where
  "failure code msg =
     \<lparr> res_status = code, res_success = False, res_message = Some msg, res_data = No_data \<rparr>"

definition internal_error :: response where
  "internal_error = failure 500 ''Internal server error''"

section \<open>The availability calculator\<close>

text \<open>
  \<^verbatim>\<open>GET /appointments/doctor/:doctorId/availability\<close>. The working hours are the
  constants of the handler.
\<close>

definition wh_start :: int where "wh_start = 9"
definition wh_end :: int where "wh_end = 17"
definition wh_slotDuration :: int where "wh_slotDuration = 30"

definition inactive_status :: "string \<Rightarrow> bool" where
  "inactive_status s = (s = ''cancelled'' \<or> s = ''no-show'')"

text \<open>
  \<^verbatim>\<open>Appointment.find({doctor, date, status: {$nin: ['cancelled', 'no-show']}})\<close>.
\<close>

definition find_active :: "appointment list \<Rightarrow> objectId \<Rightarrow> date \<Rightarrow> appointment list" where
  "find_active docs doctorId d =
     filter (\<lambda>a. a_doctor a = doctorId \<and> a_date a = d \<and> \<not> inactive_status (a_status a)) docs"

text \<open>
  The minutes since midnight that the handler reads off a wall-clock string:
  \<^verbatim>\<open>const [aptHour, aptMinute] = aptStart.split(':').map(Number)\<close>, then
  \<^verbatim>\<open>aptHour * 60 + aptMinute\<close>.
\<close>

definition hhmm_minutes :: "string \<Rightarrow> int option" where
  "hhmm_minutes t =
     (let parts = split CHR '':'' t
      in do {
        aptHour \<leftarrow> Number (element parts 0);
        aptMinute \<leftarrow> Number (element parts 1);
        Some (aptHour * 60 + aptMinute)
      })"

definition aptStartMinutes :: "appointment \<Rightarrow> int option" where
  "aptStartMinutes apt = hhmm_minutes (a_time apt)"

definition aptEndMinutes :: "appointment \<Rightarrow> rat option" where
  "aptEndMinutes apt = map_option (\<lambda>s. of_int s + a_duration apt) (aptStartMinutes apt)"

definition hasConflict :: "appointment list \<Rightarrow> int \<Rightarrow> int \<Rightarrow> bool" where
  "hasConflict appts hour minute =
     list_ex (\<lambda>apt.
        js_lt (Some (of_int (hour * 60 + minute))) (aptEndMinutes apt) \<and>
        js_gt (Some (hour * 60 + minute + wh_slotDuration)) (aptStartMinutes apt)) appts"

definition timeSlot :: "int \<Rightarrow> int \<Rightarrow> string" where
  "timeSlot hour minute =
     padStart 2 CHR ''0'' (toString (of_int hour)) @ '':'' @
     padStart 2 CHR ''0'' (toString (of_int minute))"

function minute_loop :: "appointment list \<Rightarrow> int \<Rightarrow> int \<Rightarrow> string list \<Rightarrow> string list" where
  "minute_loop appts hour minute availableSlots =
     (if minute < 60
      then minute_loop appts hour (minute + wh_slotDuration)
             (if \<not> hasConflict appts hour minute
              then availableSlots @ [timeSlot hour minute]
              else availableSlots)
      else availableSlots)"
  by pat_completeness auto
termination
  by (relation "measure (\<lambda>(appts, hour, minute, availableSlots). nat (60 - minute))")
     (auto simp: wh_slotDuration_def)

function hour_loop :: "appointment list \<Rightarrow> int \<Rightarrow> string list \<Rightarrow> string list" where
  "hour_loop appts hour availableSlots =
     (if hour < wh_end
      then hour_loop appts (hour + 1) (minute_loop appts hour 0 availableSlots)
      else availableSlots)"
  by pat_completeness auto
termination
  by (relation "measure (\<lambda>(appts, hour, availableSlots). nat (wh_end - hour))") auto

declare minute_loop.simps [simp del]
declare hour_loop.simps [simp del]

text \<open>The database operations a handler issues, in order.\<close>

datatype db_op = Appointment_find objectId date

text \<open>
  The handler. \<open>new_Date\<close> is the ECMAScript date parser (\<^verbatim>\<open>new Date(date)\<close>); it gives
  \<open>None\<close> for an invalid date, which the query refuses to cast: the handler's
  \<^verbatim>\<open>catch\<close> answers 500. The handler writes nothing: the datastore it returns is the one
  it was given.
\<close>

definition get_availability ::
  "(string \<Rightarrow> date option) \<Rightarrow> objectId \<Rightarrow> string option \<Rightarrow> db \<Rightarrow> (response \<times> db_op list) \<times> db" where
  "get_availability new_Date doctorId date_param s =
     (case date_param of
        None \<Rightarrow> ((failure 400 ''Date is required'', []), s)
      | Some date_str \<Rightarrow>
          (if date_str = [] then ((failure 400 ''Date is required'', []), s)
           else (case new_Date date_str of
                   None \<Rightarrow> ((internal_error, []), s)
                 | Some d \<Rightarrow>
                     (let appts = find_active (appointments s) doctorId d;
                          availableSlots = hour_loop appts wh_start []
                      in ((\<lparr> res_status = 200, res_success = True, res_message = None,
                             res_data = Availability_data date_str availableSlots
                               (map (\<lambda>apt. (a_time apt, a_duration apt)) appts) \<rparr>,
                           [Appointment_find doctorId d]), s)))))"

section \<open>Creating, updating and cancelling appointments\<close>

text \<open>
  The handlers of \<^verbatim>\<open>POST /appointments\<close>, \<^verbatim>\<open>PUT /appointments/:id\<close> and
  \<^verbatim>\<open>DELETE /appointments/:id\<close>, as they run once \<^verbatim>\<open>authenticate\<close>,
  \<^verbatim>\<open>authorize\<close> and the validators in front of them have let the request through.
\<close>

subsection \<open>The schema: validation and the unique index\<close>

definition appointment_types :: "string list" where
  "appointment_types = [''checkup'', ''consultation'', ''followup'', ''emergency'', ''procedure'']"

definition appointment_statuses :: "string list" where
  "appointment_statuses =
     [''scheduled'', ''confirmed'', ''in-progress'', ''completed'', ''cancelled'', ''no-show'']"

definition maxlength :: "nat \<Rightarrow> string option \<Rightarrow> bool" where
  "maxlength n v = (case v of None \<Rightarrow> True | Some s \<Rightarrow> length s \<le> n)"

definition prescription_valid :: "prescription \<Rightarrow> bool" where
  "prescription_valid rx =
     (rx_medication rx \<noteq> [] \<and> rx_dosage rx \<noteq> [] \<and> rx_frequency rx \<noteq> [] \<and>
      rx_duration rx \<noteq> [])"

text \<open>
  What \<^verbatim>\<open>save()\<close> validates before it writes: the \<^verbatim>\<open>enum\<close>, \<^verbatim>\<open>match\<close>,
  \<^verbatim>\<open>min\<close>/\<^verbatim>\<open>max\<close>, \<^verbatim>\<open>maxlength\<close> and \<^verbatim>\<open>required\<close> rules of the schema (a
  required string must not be empty).
\<close>

definition appointment_valid :: "appointment \<Rightarrow> bool" where
  "appointment_valid a =
     (List.member appointment_types (a_type a) \<and>
      List.member appointment_statuses (a_status a) \<and>
      time_match (a_time a) \<and>
      15 \<le> a_duration a \<and> a_duration a \<le> 480 \<and>
      a_reason a \<noteq> [] \<and> length (a_reason a) \<le> 500 \<and>
      maxlength 1000 (a_notes a) \<and>
      maxlength 500 (a_diagnosis a) \<and>
      maxlength 1000 (a_treatment a) \<and>
      list_all prescription_valid (a_prescriptions a))"

text \<open>
  \<^verbatim>\<open>appointmentSchema.index({ doctor: 1, date: 1, time: 1 }, { unique: true })\<close>: the
  store refuses a write that would give two documents the same key, whatever their
  status.
\<close>

definition same_slot :: "appointment \<Rightarrow> appointment \<Rightarrow> bool" where
  "same_slot a b = (a_doctor a = a_doctor b \<and> a_date a = a_date b \<and> a_time a = a_time b)"

datatype save_error = ValidationError | DuplicateKey

text \<open>
  \<^verbatim>\<open>save()\<close> of a new document: validation, then the insert, which the unique
  indexes (on \<^verbatim>\<open>_id\<close> and on the slot) may refuse. It gives back the stored
  document and the collection.
\<close>

definition Appointment_insert ::
  "appointment \<Rightarrow> appointment list \<Rightarrow> save_error + (appointment \<times> appointment list)" where
  "Appointment_insert a docs =
     (if \<not> appointment_valid a then Inl ValidationError
      else if list_ex (\<lambda>b. a_id b = a_id a) docs then Inl DuplicateKey
      else if list_ex (same_slot a) docs then Inl DuplicateKey
      else Inr (a, docs @ [a]))"

text \<open>
  \<^verbatim>\<open>save()\<close> of a loaded document \<open>old\<close> changed into \<open>new\<close>: validation; nothing is
  written when no path was modified; otherwise \<^verbatim>\<open>timestamps: true\<close> refreshes
  \<open>updatedAt\<close>, and the update is refused when it moves the document onto the slot of
  another one.
\<close>

definition Appointment_update ::
  "date \<Rightarrow> appointment \<Rightarrow> appointment \<Rightarrow> appointment list \<Rightarrow>
     save_error + (appointment \<times> appointment list)" where
  "Appointment_update now old new docs =
     (if \<not> appointment_valid new then Inl ValidationError
      else if new = old then Inr (old, docs)
      else if \<not> same_slot old new \<and> list_ex (\<lambda>b. a_id b \<noteq> a_id old \<and> same_slot new b) docs
        then Inl DuplicateKey
      else Inr (new\<lparr>a_updatedAt := now\<rparr>,
                map (\<lambda>b. if a_id b = a_id old then new\<lparr>a_updatedAt := now\<rparr> else b) docs))"

definition Appointment_findById :: "appointment list \<Rightarrow> objectId \<Rightarrow> appointment option" where
  "Appointment_findById docs i = find (\<lambda>a. a_id a = i) docs"

subsection \<open>The conflict check\<close>

text \<open>
  \<^verbatim>\<open>Appointment.findOne({_id: {$ne: id}, doctor, date, time, status: {$nin: [...]}})\<close>;
  the creation's query has no \<^verbatim>\<open>_id\<close> clause (\<open>exclude = None\<close>).
\<close>

definition conflictingAppointment ::
  "appointment list \<Rightarrow> objectId option \<Rightarrow> objectId \<Rightarrow> date \<Rightarrow> string \<Rightarrow> appointment option" where
  "conflictingAppointment docs exclude doctorId d t =
     find (\<lambda>a. (case exclude of None \<Rightarrow> True | Some i \<Rightarrow> a_id a \<noteq> i) \<and>
               a_doctor a = doctorId \<and> a_date a = d \<and> a_time a = t \<and>
               \<not> inactive_status (a_status a)) docs"

definition conflict_response :: response where
  "conflict_response = failure 400 ''Doctor is not available at this time''"

subsection \<open>\<^verbatim>\<open>POST /appointments\<close>\<close>

text \<open>
  The body of a creation. The validators of the route make sure that the first seven
  fields are present; the others are optional.
\<close>

record create_body =
  cb_patient :: objectId
  cb_doctor :: objectId
  cb_type :: string
  cb_date :: string
  cb_time :: string
  cb_duration :: rat
  cb_reason :: string
  cb_status :: "string option"
  cb_notes :: "string option"
  cb_symptoms :: "string list"
  cb_diagnosis :: "string option"
  cb_treatment :: "string option"
  cb_prescriptions :: "prescription list"
  cb_followUpRequired :: "bool option"
  cb_followUpDate :: "date option"
  cb_updatedBy :: "objectId option"

text \<open>
  \<^verbatim>\<open>new Appointment({...req.body, createdBy: req.user._id})\<close> with the schema's
  defaults. \<open>oid\<close> is the identifier the new document gets, \<open>d\<close> the date the body's
  string is cast to, and \<open>now\<close> the time \<^verbatim>\<open>timestamps: true\<close> stamps when the
  document is saved.
\<close>

definition new_Appointment ::
  "date \<Rightarrow> objectId \<Rightarrow> date \<Rightarrow> objectId \<Rightarrow> create_body \<Rightarrow> appointment" where
  "new_Appointment now oid d creator body =
     \<lparr> a_id = oid, a_patient = cb_patient body, a_doctor = cb_doctor body,
       a_type = cb_type body,
       a_status = (case cb_status body of None \<Rightarrow> ''scheduled'' | Some st \<Rightarrow> st),
       a_date = d, a_time = cb_time body, a_duration = cb_duration body,
       a_reason = cb_reason body, a_notes = cb_notes body, a_symptoms = cb_symptoms body,
       a_diagnosis = cb_diagnosis body, a_treatment = cb_treatment body,
       a_prescriptions = cb_prescriptions body,
       a_followUpRequired = (case cb_followUpRequired body of None \<Rightarrow> False | Some f \<Rightarrow> f),
       a_followUpDate = cb_followUpDate body,
       a_createdBy = creator, a_updatedBy = cb_updatedBy body,
       a_createdAt = now, a_updatedAt = now \<rparr>"

definition patient_found :: "patient list \<Rightarrow> objectId \<Rightarrow> bool" where
  "patient_found ps patientId = list_ex (\<lambda>p. p_id p = patientId \<and> p_isActive p) ps"

definition doctor_found :: "user list \<Rightarrow> objectId \<Rightarrow> bool" where
  "doctor_found us doctorId =
     list_ex (\<lambda>u. u_id u = doctorId \<and> u_isActive u \<and>
                  (u_role u = ''doctor'' \<or> u_role u = ''admin'')) us"

definition create_appointment ::
  "(string \<Rightarrow> date option) \<Rightarrow> date \<Rightarrow> objectId \<Rightarrow> user \<Rightarrow> create_body \<Rightarrow> db \<Rightarrow> response \<times> db" where
  "create_appointment new_Date now oid req_user body s =
     (if \<not> patient_found (patients s) (cb_patient body)
        then (failure 400 ''Patient not found'', s)
      else if \<not> doctor_found (users s) (cb_doctor body)
        then (failure 400 ''Doctor not found'', s)
      else (case new_Date (cb_date body) of
              None \<Rightarrow> (internal_error, s)
            | Some d \<Rightarrow>
               (case conflictingAppointment (appointments s) None (cb_doctor body) d (cb_time body) of
                  Some c \<Rightarrow> (conflict_response, s)
                | None \<Rightarrow>
                   (case Appointment_insert (new_Appointment now oid d (u_id req_user) body)
                           (appointments s) of
                      Inl err \<Rightarrow> (internal_error, s)
                    | Inr (doc, docs) \<Rightarrow>
                        (\<lparr> res_status = 201, res_success = True,
                           res_message = Some ''Appointment created successfully'',
                           res_data = Appointment_data doc \<rparr>,
                         s\<lparr>appointments := docs\<rparr>)))))"

subsection \<open>\<^verbatim>\<open>PUT /appointments/:id\<close>\<close>

text \<open>
  The body of an update: any field may be there or not. (A body cannot move a document
  to another \<^verbatim>\<open>_id\<close>: the store refuses to modify that field.)
\<close>

record update_body =
  ub_patient :: "objectId option"
  ub_doctor :: "objectId option"
  ub_type :: "string option"
  ub_status :: "string option"
  ub_date :: "string option"
  ub_time :: "string option"
  ub_duration :: "rat option"
  ub_reason :: "string option"
  ub_notes :: "string option"
  ub_symptoms :: "string list option"
  ub_diagnosis :: "string option"
  ub_treatment :: "string option"
  ub_prescriptions :: "prescription list option"
  ub_followUpRequired :: "bool option"
  ub_followUpDate :: "date option"
  ub_createdBy :: "objectId option"
  ub_updatedBy :: "objectId option"

text \<open>\<^verbatim>\<open>a || b\<close> on a string field: \<open>b\<close> when the field is missing or empty.\<close>

definition or_else :: "string option \<Rightarrow> string \<Rightarrow> string" where
  "or_else v b = (case v of None \<Rightarrow> b | Some s \<Rightarrow> (if s = [] then b else s))"

definition assign :: "'a option \<Rightarrow> 'a \<Rightarrow> 'a" where
  "assign v old = (case v of None \<Rightarrow> old | Some x \<Rightarrow> x)"

text \<open>
  \<^verbatim>\<open>Object.assign(appointment, req.body)\<close>: every field of the body overwrites the
  document's. A date string that does not parse is a cast error, which \<^verbatim>\<open>save()\<close>
  reports: \<open>None\<close>.
\<close>

definition Object_assign ::
  "(string \<Rightarrow> date option) \<Rightarrow> appointment \<Rightarrow> update_body \<Rightarrow> appointment option" where
  "Object_assign new_Date a body =
     (case (case ub_date body of None \<Rightarrow> Some (a_date a) | Some str \<Rightarrow> new_Date str) of
        None \<Rightarrow> None
      | Some d \<Rightarrow> Some
         \<lparr> a_id = a_id a,
           a_patient = assign (ub_patient body) (a_patient a),
           a_doctor = assign (ub_doctor body) (a_doctor a),
           a_type = assign (ub_type body) (a_type a),
           a_status = assign (ub_status body) (a_status a),
           a_date = d,
           a_time = assign (ub_time body) (a_time a),
           a_duration = assign (ub_duration body) (a_duration a),
           a_reason = assign (ub_reason body) (a_reason a),
           a_notes = (case ub_notes body of None \<Rightarrow> a_notes a | Some x \<Rightarrow> Some x),
           a_symptoms = assign (ub_symptoms body) (a_symptoms a),
           a_diagnosis = (case ub_diagnosis body of None \<Rightarrow> a_diagnosis a | Some x \<Rightarrow> Some x),
           a_treatment = (case ub_treatment body of None \<Rightarrow> a_treatment a | Some x \<Rightarrow> Some x),
           a_prescriptions = assign (ub_prescriptions body) (a_prescriptions a),
           a_followUpRequired = assign (ub_followUpRequired body) (a_followUpRequired a),
           a_followUpDate =
             (case ub_followUpDate body of None \<Rightarrow> a_followUpDate a | Some x \<Rightarrow> Some x),
           a_createdBy = assign (ub_createdBy body) (a_createdBy a),
           a_updatedBy = (case ub_updatedBy body of None \<Rightarrow> a_updatedBy a | Some x \<Rightarrow> Some x),
           a_createdAt = a_createdAt a,
           a_updatedAt = a_updatedAt a \<rparr>)"

datatype guard = Guard_pass | Guard_conflict | Guard_error

text \<open>
  The guard of the update: it runs only when the body has a date, a time or a doctor,
  and looks for another active appointment on the candidate slot.
\<close>

definition update_guard ::
  "(string \<Rightarrow> date option) \<Rightarrow> appointment list \<Rightarrow> objectId \<Rightarrow> appointment \<Rightarrow> update_body \<Rightarrow> guard" where
  "update_guard new_Date docs i appointment body =
     (if truthy (ub_date body) \<or> truthy (ub_time body) \<or> ub_doctor body \<noteq> None
      then (case (if truthy (ub_date body) then Option.bind (ub_date body) new_Date
                  else Some (a_date appointment)) of
              None \<Rightarrow> Guard_error
            | Some newDate \<Rightarrow>
               (case conflictingAppointment docs (Some i)
                       (assign (ub_doctor body) (a_doctor appointment)) newDate
                       (or_else (ub_time body) (a_time appointment)) of
                  Some c \<Rightarrow> Guard_conflict
                | None \<Rightarrow> Guard_pass))
      else Guard_pass)"

definition update_appointment ::
  "(string \<Rightarrow> date option) \<Rightarrow> date \<Rightarrow> user \<Rightarrow> objectId \<Rightarrow> update_body \<Rightarrow> db \<Rightarrow> response \<times> db" where
  "update_appointment new_Date now req_user i body s =
     (case Appointment_findById (appointments s) i of
        None \<Rightarrow> (failure 404 ''Appointment not found'', s)
      | Some appointment \<Rightarrow>
         (case update_guard new_Date (appointments s) i appointment body of
            Guard_error \<Rightarrow> (internal_error, s)
          | Guard_conflict \<Rightarrow> (conflict_response, s)
          | Guard_pass \<Rightarrow>
             (case Object_assign new_Date appointment body of
                None \<Rightarrow> (internal_error, s)
              | Some assigned \<Rightarrow>
                 (case Appointment_update now appointment
                         (assigned\<lparr>a_updatedBy := Some (u_id req_user)\<rparr>) (appointments s) of
                    Inl err \<Rightarrow> (internal_error, s)
                  | Inr (doc, docs) \<Rightarrow>
                      (\<lparr> res_status = 200, res_success = True,
                         res_message = Some ''Appointment updated successfully'',
                         res_data = Appointment_data doc \<rparr>,
                       s\<lparr>appointments := docs\<rparr>)))))"

subsection \<open>\<^verbatim>\<open>DELETE /appointments/:id\<close>\<close>

definition cancel_appointment :: "date \<Rightarrow> user \<Rightarrow> objectId \<Rightarrow> db \<Rightarrow> response \<times> db" where
  "cancel_appointment now req_user i s =
     (case Appointment_findById (appointments s) i of
        None \<Rightarrow> (failure 404 ''Appointment not found'', s)
      | Some appointment \<Rightarrow>
         (case Appointment_update now appointment
                 (appointment\<lparr>a_status := ''cancelled'', a_updatedBy := Some (u_id req_user)\<rparr>)
                 (appointments s) of
            Inl err \<Rightarrow> (internal_error, s)
          | Inr (doc, docs) \<Rightarrow>
              (\<lparr> res_status = 200, res_success = True,
                 res_message = Some ''Appointment cancelled successfully'',
                 res_data = No_data \<rparr>,
               s\<lparr>appointments := docs\<rparr>)))"

section \<open>Patients\<close>

text \<open>
  The handlers of \<^verbatim>\<open>/patients\<close>, after \<^verbatim>\<open>authenticate\<close>, \<^verbatim>\<open>authorize\<close> and the
  validators. The strings of a body are taken as the schema's setters (\<^verbatim>\<open>trim\<close>,
  \<^verbatim>\<open>lowercase\<close>) leave them, and its dates as the timestamps they are cast to.
\<close>

subsection \<open>The schema\<close>

definition genders :: "string list" where
  "genders = [''male'', ''female'', ''other'']"

definition blood_types :: "string list" where
  "blood_types = [''A+'', ''A-'', ''B+'', ''B-'', ''AB+'', ''AB-'', ''O+'', ''O-'']"

definition severities :: "string list" where
  "severities = [''mild'', ''moderate'', ''severe'']"

definition history_statuses :: "string list" where
  "history_statuses = [''active'', ''resolved'', ''chronic'']"

definition address_valid :: "address \<Rightarrow> bool" where
  "address_valid ad =
     (ad_street ad \<noteq> [] \<and> ad_city ad \<noteq> [] \<and> ad_state ad \<noteq> [] \<and> ad_zipCode ad \<noteq> [])"

definition emergencyContact_valid :: "emergencyContact \<Rightarrow> bool" where
  "emergencyContact_valid ec =
     (ec_name ec \<noteq> [] \<and> ec_relationship ec \<noteq> [] \<and> ec_phone ec \<noteq> [])"

definition medication_valid :: "medication \<Rightarrow> bool" where
  "medication_valid m =
     (med_name m \<noteq> [] \<and> med_dosage m \<noteq> [] \<and> med_frequency m \<noteq> [] \<and>
      med_prescribedBy m \<noteq> [])"

definition history_valid :: "medicalHistoryEntry \<Rightarrow> bool" where
  "history_valid h = (mh_condition h \<noteq> [] \<and> List.member history_statuses (mh_status h))"

definition allergy_valid :: "allergy \<Rightarrow> bool" where
  "allergy_valid al = (al_allergen al \<noteq> [] \<and> List.member severities (al_severity al))"

text \<open>
  The validation of \<^verbatim>\<open>save()\<close>. \<open>email_match\<close> stands for the schema's pattern for
  \<open>email\<close>.
\<close>

definition patient_valid :: "(string \<Rightarrow> bool) \<Rightarrow> patient \<Rightarrow> bool" where
  "patient_valid email_match p =
     (p_firstName p \<noteq> [] \<and> length (p_firstName p) \<le> 50 \<and>
      p_lastName p \<noteq> [] \<and> length (p_lastName p) \<le> 50 \<and>
      p_email p \<noteq> [] \<and> email_match (p_email p) \<and>
      p_phone p \<noteq> [] \<and>
      List.member genders (p_gender p) \<and>
      address_valid (p_address p) \<and>
      emergencyContact_valid (p_emergencyContact p) \<and>
      list_all history_valid (p_medicalHistory p) \<and>
      list_all medication_valid (p_currentMedications p) \<and>
      list_all allergy_valid (p_allergies p) \<and>
      (case p_bloodType p of None \<Rightarrow> True | Some bt \<Rightarrow> List.member blood_types bt) \<and>
      maxlength 1000 (p_notes p))"

text \<open>
  \<^verbatim>\<open>save()\<close> of a new patient; \<open>email\<close> has a unique index (\<^verbatim>\<open>unique: true\<close>), over
  every document of the collection.
\<close>

definition Patient_insert ::
  "(string \<Rightarrow> bool) \<Rightarrow> patient \<Rightarrow> patient list \<Rightarrow> save_error + (patient \<times> patient list)" where
  "Patient_insert email_match p docs =
     (if \<not> patient_valid email_match p then Inl ValidationError
      else if list_ex (\<lambda>q. p_id q = p_id p) docs then Inl DuplicateKey
      else if list_ex (\<lambda>q. p_email q = p_email p) docs then Inl DuplicateKey
      else Inr (p, docs @ [p]))"

text \<open>\<^verbatim>\<open>save()\<close> of a loaded patient \<open>old\<close> changed into \<open>new\<close>.\<close>

definition Patient_update ::
  "(string \<Rightarrow> bool) \<Rightarrow> date \<Rightarrow> patient \<Rightarrow> patient \<Rightarrow> patient list \<Rightarrow>
     save_error + (patient \<times> patient list)" where
  "Patient_update email_match now old new docs =
     (if \<not> patient_valid email_match new then Inl ValidationError
      else if new = old then Inr (old, docs)
      else if p_email new \<noteq> p_email old \<and>
              list_ex (\<lambda>q. p_id q \<noteq> p_id old \<and> p_email q = p_email new) docs
        then Inl DuplicateKey
      else Inr (new\<lparr>p_updatedAt := now\<rparr>,
                map (\<lambda>q. if p_id q = p_id old then new\<lparr>p_updatedAt := now\<rparr> else q) docs))"

text \<open>\<^verbatim>\<open>Patient.findOne({ _id: id, isActive: true })\<close>.\<close>

definition Patient_findActive :: "patient list \<Rightarrow> objectId \<Rightarrow> patient option" where
  "Patient_findActive docs i = find (\<lambda>p. p_id p = i \<and> p_isActive p) docs"

subsection \<open>The handlers\<close>

text \<open>The body of a creation or an update: any field may be there or not.\<close>

record patient_body =
  pb_firstName :: "string option"
  pb_lastName :: "string option"
  pb_email :: "string option"
  pb_phone :: "string option"
  pb_dateOfBirth :: "date option"
  pb_gender :: "string option"
  pb_address :: "address option"
  pb_emergencyContact :: "emergencyContact option"
  pb_medicalHistory :: "medicalHistoryEntry list option"
  pb_currentMedications :: "medication list option"
  pb_allergies :: "allergy list option"
  pb_bloodType :: "string option"
  pb_insuranceProvider :: "string option"
  pb_insuranceNumber :: "string option"
  pb_primaryDoctor :: "objectId option"
  pb_isActive :: "bool option"
  pb_profileImage :: "string option"
  pb_notes :: "string option"

definition not_found :: response where
  "not_found = failure 404 ''Patient not found''"

definition email_taken :: response where
  "email_taken = failure 400 ''Patient with this email already exists''"

text \<open>\<^verbatim>\<open>GET /patients/:id\<close>.\<close>

definition get_patient :: "objectId \<Rightarrow> db \<Rightarrow> response \<times> db" where
  "get_patient i s =
     (case Patient_findActive (patients s) i of
        None \<Rightarrow> (not_found, s)
      | Some p \<Rightarrow>
          (\<lparr> res_status = 200, res_success = True, res_message = None,
             res_data = Patient_data p \<rparr>, s))"

text \<open>
  \<^verbatim>\<open>new Patient(req.body)\<close> with the schema's defaults; \<open>None\<close> when a required field
  is missing, which \<^verbatim>\<open>save()\<close> reports as a validation error. \<open>oid\<close> is the
  identifier of the new document: a generated one, or the one the body carries.
\<close>

definition new_Patient :: "date \<Rightarrow> objectId \<Rightarrow> patient_body \<Rightarrow> patient option" where
  "new_Patient now oid body = do {
     firstName \<leftarrow> pb_firstName body;
     lastName \<leftarrow> pb_lastName body;
     email \<leftarrow> pb_email body;
     phone \<leftarrow> pb_phone body;
     dateOfBirth \<leftarrow> pb_dateOfBirth body;
     gender \<leftarrow> pb_gender body;
     addr \<leftarrow> pb_address body;
     contact \<leftarrow> pb_emergencyContact body;
     Some \<lparr> p_id = oid, p_firstName = firstName, p_lastName = lastName, p_email = email,
            p_phone = phone, p_dateOfBirth = dateOfBirth, p_gender = gender,
            p_address = addr, p_emergencyContact = contact,
            p_medicalHistory = assign (pb_medicalHistory body) [],
            p_currentMedications = assign (pb_currentMedications body) [],
            p_allergies = assign (pb_allergies body) [],
            p_bloodType = pb_bloodType body,
            p_insuranceProvider = pb_insuranceProvider body,
            p_insuranceNumber = pb_insuranceNumber body,
            p_primaryDoctor = pb_primaryDoctor body,
            p_isActive = assign (pb_isActive body) True,
            p_profileImage = pb_profileImage body,
            p_notes = pb_notes body,
            p_createdAt = now, p_updatedAt = now \<rparr>
   }"

text \<open>\<^verbatim>\<open>POST /patients\<close>.\<close>

definition create_patient ::
  "(string \<Rightarrow> bool) \<Rightarrow> date \<Rightarrow> objectId \<Rightarrow> patient_body \<Rightarrow> db \<Rightarrow> response \<times> db" where
  "create_patient email_match now oid body s =
     (if list_ex (\<lambda>q. Some (p_email q) = pb_email body \<and> p_isActive q) (patients s)
        then (email_taken, s)
      else (case new_Patient now oid body of
              None \<Rightarrow> (internal_error, s)
            | Some p \<Rightarrow>
               (case Patient_insert email_match p (patients s) of
                  Inl err \<Rightarrow> (internal_error, s)
                | Inr (doc, docs) \<Rightarrow>
                    (\<lparr> res_status = 201, res_success = True,
                       res_message = Some ''Patient created successfully'',
                       res_data = Patient_data doc \<rparr>,
                     s\<lparr>patients := docs\<rparr>))))"

text \<open>\<^verbatim>\<open>Object.assign(patient, req.body)\<close>.\<close>

definition Object_assign_patient :: "patient \<Rightarrow> patient_body \<Rightarrow> patient" where
  "Object_assign_patient p body =
     \<lparr> p_id = p_id p,
       p_firstName = assign (pb_firstName body) (p_firstName p),
       p_lastName = assign (pb_lastName body) (p_lastName p),
       p_email = assign (pb_email body) (p_email p),
       p_phone = assign (pb_phone body) (p_phone p),
       p_dateOfBirth = assign (pb_dateOfBirth body) (p_dateOfBirth p),
       p_gender = assign (pb_gender body) (p_gender p),
       p_address = assign (pb_address body) (p_address p),
       p_emergencyContact = assign (pb_emergencyContact body) (p_emergencyContact p),
       p_medicalHistory = assign (pb_medicalHistory body) (p_medicalHistory p),
       p_currentMedications = assign (pb_currentMedications body) (p_currentMedications p),
       p_allergies = assign (pb_allergies body) (p_allergies p),
       p_bloodType = (case pb_bloodType body of None \<Rightarrow> p_bloodType p | Some x \<Rightarrow> Some x),
       p_insuranceProvider =
         (case pb_insuranceProvider body of None \<Rightarrow> p_insuranceProvider p | Some x \<Rightarrow> Some x),
       p_insuranceNumber =
         (case pb_insuranceNumber body of None \<Rightarrow> p_insuranceNumber p | Some x \<Rightarrow> Some x),
       p_primaryDoctor =
         (case pb_primaryDoctor body of None \<Rightarrow> p_primaryDoctor p | Some x \<Rightarrow> Some x),
       p_isActive = assign (pb_isActive body) (p_isActive p),
       p_profileImage =
         (case pb_profileImage body of None \<Rightarrow> p_profileImage p | Some x \<Rightarrow> Some x),
       p_notes = (case pb_notes body of None \<Rightarrow> p_notes p | Some x \<Rightarrow> Some x),
       p_createdAt = p_createdAt p,
       p_updatedAt = p_updatedAt p \<rparr>"

text \<open>\<^verbatim>\<open>PUT /patients/:id\<close>.\<close>

definition update_patient ::
  "(string \<Rightarrow> bool) \<Rightarrow> date \<Rightarrow> objectId \<Rightarrow> patient_body \<Rightarrow> db \<Rightarrow> response \<times> db" where
  "update_patient email_match now i body s =
     (case Patient_findActive (patients s) i of
        None \<Rightarrow> (not_found, s)
      | Some p \<Rightarrow>
         (if pb_email body \<noteq> Some (p_email p) \<and>
             list_ex (\<lambda>q. Some (p_email q) = pb_email body \<and> p_id q \<noteq> i \<and> p_isActive q)
               (patients s)
            then (email_taken, s)
          else (case Patient_update email_match now p (Object_assign_patient p body)
                       (patients s) of
                  Inl err \<Rightarrow> (internal_error, s)
                | Inr (doc, docs) \<Rightarrow>
                    (\<lparr> res_status = 200, res_success = True,
                       res_message = Some ''Patient updated successfully'',
                       res_data = Patient_data doc \<rparr>,
                     s\<lparr>patients := docs\<rparr>))))"

text \<open>\<^verbatim>\<open>DELETE /patients/:id\<close>: the soft delete.\<close>

definition delete_patient ::
  "(string \<Rightarrow> bool) \<Rightarrow> date \<Rightarrow> objectId \<Rightarrow> db \<Rightarrow> response \<times> db" where
  "delete_patient email_match now i s =
     (case Patient_findActive (patients s) i of
        None \<Rightarrow> (not_found, s)
      | Some p \<Rightarrow>
         (case Patient_update email_match now p (p\<lparr>p_isActive := False\<rparr>) (patients s) of
            Inl err \<Rightarrow> (internal_error, s)
          | Inr (doc, docs) \<Rightarrow>
              (\<lparr> res_status = 200, res_success = True,
                 res_message = Some ''Patient deleted successfully'',
                 res_data = No_data \<rparr>,
               s\<lparr>patients := docs\<rparr>)))"

section \<open>Accounts: \<^verbatim>\<open>PUT /users/:id\<close>\<close>

record user_body =
  usr_username :: "string option"
  usr_email :: "string option"
  usr_password :: "string option"
  usr_firstName :: "string option"
  usr_lastName :: "string option"
  usr_role :: "string option"
  usr_isActive :: "bool option"
  usr_lastLogin :: "date option"
  usr_profileImage :: "string option"

text \<open>
  The two deletions the handler makes in the body before it uses it:
  \<^verbatim>\<open>if (req.user.role !== 'admin' && req.body.role) delete req.body.role\<close>, then
  \<^verbatim>\<open>delete req.body.password\<close>.
\<close>

definition sanitize :: "user \<Rightarrow> user_body \<Rightarrow> user_body" where
  "sanitize req_user body =
     (if u_role req_user \<noteq> ''admin'' \<and> truthy (usr_role body)
      then body\<lparr>usr_role := None\<rparr>
      else body)\<lparr>usr_password := None\<rparr>"

text \<open>\<^verbatim>\<open>Object.assign(user, req.body)\<close>.\<close>

definition Object_assign_user :: "user \<Rightarrow> user_body \<Rightarrow> user" where
  "Object_assign_user u body =
     \<lparr> u_id = u_id u,
       u_username = assign (usr_username body) (u_username u),
       u_email = assign (usr_email body) (u_email u),
       u_password = assign (usr_password body) (u_password u),
       u_firstName = assign (usr_firstName body) (u_firstName u),
       u_lastName = assign (usr_lastName body) (u_lastName u),
       u_role = assign (usr_role body) (u_role u),
       u_isActive = assign (usr_isActive body) (u_isActive u),
       u_lastLogin = (case usr_lastLogin body of None \<Rightarrow> u_lastLogin u | Some x \<Rightarrow> Some x),
       u_profileImage =
         (case usr_profileImage body of None \<Rightarrow> u_profileImage u | Some x \<Rightarrow> Some x) \<rparr>"

text \<open>
  \<^verbatim>\<open>user.save()\<close>. The account schema (\<^verbatim>\<open>models/User\<close>) is not among the sources:
  \<open>schema_ok\<close> stands for what it accepts (its validation and its unique indexes), given
  the collection and the document to write. Its hook that hashes a password runs only
  when \<open>password\<close> was modified.
\<close>

definition User_save ::
  "(user list \<Rightarrow> user \<Rightarrow> bool) \<Rightarrow> user \<Rightarrow> user \<Rightarrow> user list \<Rightarrow> save_error + (user \<times> user list)" where
  "User_save schema_ok old new docs =
     (if \<not> schema_ok docs new then Inl ValidationError
      else Inr (new, map (\<lambda>v. if u_id v = u_id old then new else v) docs))"

definition update_user ::
  "(user list \<Rightarrow> user \<Rightarrow> bool) \<Rightarrow> user \<Rightarrow> objectId \<Rightarrow> user_body \<Rightarrow> db \<Rightarrow> response \<times> db" where
  "update_user schema_ok req_user i req_body s =
     (case find (\<lambda>u. u_id u = i \<and> u_isActive u) (users s) of
        None \<Rightarrow> (failure 404 ''User not found'', s)
      | Some usr \<Rightarrow>
         (if u_role req_user \<noteq> ''admin'' \<and> u_id req_user \<noteq> i
            then (failure 403 ''Access denied'', s)
          else if truthy (usr_email (sanitize req_user req_body)) \<and>
                  usr_email (sanitize req_user req_body) \<noteq> Some (u_email usr) \<and>
                  list_ex (\<lambda>v. Some (u_email v) = usr_email (sanitize req_user req_body) \<and>
                               u_id v \<noteq> i \<and> u_isActive v) (users s)
            then (failure 400 ''User with this email already exists'', s)
          else if truthy (usr_username (sanitize req_user req_body)) \<and>
                  usr_username (sanitize req_user req_body) \<noteq> Some (u_username usr) \<and>
                  list_ex (\<lambda>v. Some (u_username v) = usr_username (sanitize req_user req_body) \<and>
                               u_id v \<noteq> i \<and> u_isActive v) (users s)
            then (failure 400 ''Username already taken'', s)
          else (case User_save schema_ok usr
                       (Object_assign_user usr (sanitize req_user req_body)) (users s) of
                  Inl err \<Rightarrow> (internal_error, s)
                | Inr (doc, docs) \<Rightarrow>
                    (\<lparr> res_status = 200, res_success = True,
                       res_message = Some ''User updated successfully'',
                       res_data = User_data doc \<rparr>,
                     s\<lparr>users := docs\<rparr>))))"

section \<open>Requests\<close>

text \<open>
  The requests whose handlers are modelled, each with what the handler reads beside the
  datastore: the clock (\<open>now\<close>), the identifier a new document gets, the authenticated
  account. The other routes of the application write neither appointments nor patients.
\<close>

datatype request =
    GET_availability objectId "string option"
  | POST_appointment date objectId user create_body
  | PUT_appointment date user objectId update_body
  | DELETE_appointment date user objectId
  | GET_patient objectId
  | POST_patient date objectId patient_body
  | PUT_patient date objectId patient_body
  | DELETE_patient date objectId
  | PUT_user user objectId user_body

text \<open>What the server is run with: the date parser and the two schema parameters.\<close>

record server =
  sv_new_Date :: "string \<Rightarrow> date option"
  sv_email_match :: "string \<Rightarrow> bool"
  sv_schema_ok :: "user list \<Rightarrow> user \<Rightarrow> bool"

fun route :: "server \<Rightarrow> request \<Rightarrow> db \<Rightarrow> response \<times> db" where
  "route sv (GET_availability doctorId date_param) s =
     (fst (fst (get_availability (sv_new_Date sv) doctorId date_param s)),
      snd (get_availability (sv_new_Date sv) doctorId date_param s))"
| "route sv (POST_appointment now oid req_user body) s =
     create_appointment (sv_new_Date sv) now oid req_user body s"
| "route sv (PUT_appointment now req_user i body) s =
     update_appointment (sv_new_Date sv) now req_user i body s"
| "route sv (DELETE_appointment now req_user i) s = cancel_appointment now req_user i s"
| "route sv (GET_patient i) s = get_patient i s"
| "route sv (POST_patient now oid body) s = create_patient (sv_email_match sv) now oid body s"
| "route sv (PUT_patient now i body) s = update_patient (sv_email_match sv) now i body s"
| "route sv (DELETE_patient now i) s = delete_patient (sv_email_match sv) now i s"
| "route sv (PUT_user req_user i body) s = update_user (sv_schema_ok sv) req_user i body s"

text \<open>The datastore after a sequence of requests.\<close>

fun serve :: "server \<Rightarrow> request list \<Rightarrow> db \<Rightarrow> db" where
  "serve sv [] s = s"
| "serve sv (r # rs) s = serve sv rs (snd (route sv r s))"

section \<open>The dashboard's age distribution\<close>

text \<open>
  \<^verbatim>\<open>365.25 * 24 * 60 * 60 * 1000\<close> milliseconds. The aggregation divides the difference
  of two dates (an integer number of milliseconds) by it and takes \<^verbatim>\<open>$floor\<close>; for any
  age below 285000 years the floating-point quotient has the floor of the exact one,
  which is the integer quotient.
\<close>

definition year_ms :: int where
  "year_ms = 36525 * 24 * 60 * 60 * 10"

definition dashboard_age :: "date \<Rightarrow> date \<Rightarrow> int" where
  "dashboard_age now dateOfBirth = (now - dateOfBirth) div year_ms"

definition age_bracket :: "int \<Rightarrow> string" where
  "age_bracket age =
     (if age < 18 then ''0-17''
      else if age < 35 then ''18-34''
      else if age < 50 then ''35-49''
      else if age < 65 then ''50-64''
      else ''65+'')"

text \<open>
  \<^verbatim>\<open>$match\<close> the active patients, \<^verbatim>\<open>$group\<close> them by bracket and count: one pair
  for every bracket that has a patient.
\<close>

definition ageDistribution :: "date \<Rightarrow> patient list \<Rightarrow> (string \<times> nat) list" where
  "ageDistribution now ps =
     (let brackets = map (\<lambda>p. age_bracket (dashboard_age now (p_dateOfBirth p)))
                         (filter p_isActive ps)
      in map (\<lambda>b. (b, count_list brackets b)) (remdups brackets))"

subsection \<open>Calendar dates\<close>

text \<open>
  A date read on the calendar (UTC): year, month (1 to 12), day of the month and the
  milliseconds since midnight; \<open>timestamp\<close> is the \<^verbatim>\<open>Date\<close> it denotes.
\<close>

record civil =
  c_year :: int
  c_month :: int
  c_day :: int
  c_ms :: int

definition days_from_civil :: "int \<Rightarrow> int \<Rightarrow> int \<Rightarrow> int" where
  "days_from_civil y m d =
     (let y' = (if m \<le> 2 then y - 1 else y);
          era = y' div 400;
          yoe = y' - era * 400;
          doy = (153 * ((m + 9) mod 12) + 2) div 5 + d - 1;
          doe = yoe * 365 + yoe div 4 - yoe div 100 + doy
      in era * 146097 + doe - 719468)"

definition timestamp :: "civil \<Rightarrow> date" where
  "timestamp c = days_from_civil (c_year c) (c_month c) (c_day c) * 86400000 + c_ms c"

text \<open>The same day and time of day, \<open>n\<close> calendar years earlier.\<close>

definition years_before :: "int \<Rightarrow> civil \<Rightarrow> civil" where
  "years_before n c = c\<lparr>c_year := c_year c - n\<rparr>"

text \<open>
  The virtual \<open>age\<close> of the patient schema (\<^verbatim>\<open>src/models/Patient.ts\<close>), on the
  calendar reading of today and of the birth date (\<^verbatim>\<open>getMonth\<close> counts from 0).
\<close>

definition age :: "civil \<Rightarrow> civil \<Rightarrow> int" where
  "age today birthDate =
     (let monthDiff = (c_month today - 1) - (c_month birthDate - 1)
      in if monthDiff < 0 \<or> (monthDiff = 0 \<and> c_day today < c_day birthDate)
         then c_year today - c_year birthDate - 1
         else c_year today - c_year birthDate)"

section \<open>Notions of the specification\<close>


text \<open>
  The minutes since midnight that a wall-clock string \<^verbatim>\<open>H:MM\<close> or \<^verbatim>\<open>HH:MM\<close>
  stands for.
\<close>

fun clock_minutes :: "string \<Rightarrow> int" where
  "clock_minutes [h, c, m1, m2] = digit_val h * 60 + (digit_val m1 * 10 + digit_val m2)"
| "clock_minutes [h1, h2, c, m1, m2] =
     (digit_val h1 * 10 + digit_val h2) * 60 + (digit_val m1 * 10 + digit_val m2)"
| "clock_minutes t = 0"






text \<open>The key of the unique index, and the invariant it stands for.\<close>

definition slot_key :: "appointment \<Rightarrow> objectId \<times> date \<times> string" where
  "slot_key a = (a_doctor a, a_date a, a_time a)"

definition unique_index :: "appointment list \<Rightarrow> bool" where
  "unique_index docs = distinct (map slot_key docs)"

text \<open>
  The store gives every document an identifier of its own (the unique index on
  \<^verbatim>\<open>_id\<close>).
\<close>

definition ids_distinct :: "appointment list \<Rightarrow> bool" where
  "ids_distinct docs = distinct (map a_id docs)"

definition patient_ids_distinct :: "patient list \<Rightarrow> bool" where
  "patient_ids_distinct docs = distinct (map p_id docs)"

definition user_ids_distinct :: "user list \<Rightarrow> bool" where
  "user_ids_distinct docs = distinct (map u_id docs)"

text \<open>The soft-deleted record \<open>p\<close> is in the store, under unique identifiers.\<close>

definition holds_deleted :: "patient \<Rightarrow> db \<Rightarrow> bool" where
  "holds_deleted p s =
     (patient_ids_distinct (patients s) \<and> List.member (patients s) p \<and> \<not> p_isActive p)"




section \<open>Sample data\<close>

text \<open>A small datastore on which the theorems below are run.\<close>

definition sample_Date :: "string \<Rightarrow> date option" where
  "sample_Date str = (if str = ''2024-02-01'' then Some 1706745600000 else None)"

definition apt_A :: appointment where
  "apt_A =
     \<lparr> a_id = 100, a_patient = 1, a_doctor = 3, a_type = ''checkup'',
       a_status = ''scheduled'', a_date = 1706745600000, a_time = ''10:00'',
       a_duration = 30, a_reason = ''Annual checkup'', a_notes = None, a_symptoms = [],
       a_diagnosis = None, a_treatment = None, a_prescriptions = [],
       a_followUpRequired = False, a_followUpDate = None, a_createdBy = 3,
       a_updatedBy = None, a_createdAt = 1700000000000, a_updatedAt = 1700000000000 \<rparr>"

definition apt_late :: appointment where
  "apt_late = apt_A\<lparr>a_id := 101, a_time := ''23:30'', a_duration := 60\<rparr>"

definition patient_P :: patient where
  "patient_P =
     \<lparr> p_id = 1, p_firstName = ''Ada'', p_lastName = ''Byron'', p_email = ''ada@example.org'',
       p_phone = ''555-0100'', p_dateOfBirth = 983404800000, p_gender = ''female'',
       p_address = \<lparr> ad_street = ''1 Main St'', ad_city = ''Springfield'', ad_state = ''IL'',
                     ad_zipCode = ''62701'', ad_country = ''United States'' \<rparr>,
       p_emergencyContact = \<lparr> ec_name = ''Bo'', ec_relationship = ''sibling'',
                              ec_phone = ''555-0101'', ec_email = None \<rparr>,
       p_medicalHistory = [], p_currentMedications = [], p_allergies = [],
       p_bloodType = Some ''O+'', p_insuranceProvider = None, p_insuranceNumber = None,
       p_primaryDoctor = Some 3, p_isActive = True, p_profileImage = None, p_notes = None,
       p_createdAt = 1700000000000, p_updatedAt = 1700000000000 \<rparr>"

definition user_doctor :: user where
  "user_doctor =
     \<lparr> u_id = 3, u_username = ''drgrey'', u_email = ''grey@example.org'',
       u_password = ''$2a$12$hash-of-grey'', u_firstName = ''Mer'', u_lastName = ''Grey'',
       u_role = ''doctor'', u_isActive = True, u_lastLogin = None, u_profileImage = None \<rparr>"

definition user_staff :: user where
  "user_staff =
     \<lparr> u_id = 4, u_username = ''frontdesk'', u_email = ''desk@example.org'',
       u_password = ''$2a$12$hash-of-desk'', u_firstName = ''Sam'', u_lastName = ''Lee'',
       u_role = ''staff'', u_isActive = True, u_lastLogin = None, u_profileImage = None \<rparr>"

definition sample_db :: db where
  "sample_db =
     \<lparr> patients = [patient_P], users = [user_doctor, user_staff], appointments = [apt_A] \<rparr>"

text \<open>A second appointment of the same doctor and day, and bodies of requests.\<close>

definition apt_B :: appointment where
  "apt_B = apt_A\<lparr>a_id := 102, a_time := ''11:00''\<rparr>"

definition sample_db2 :: db where
  "sample_db2 = sample_db\<lparr>appointments := [apt_A, apt_B]\<rparr>"

definition body_at :: "string \<Rightarrow> create_body" where
  "body_at t =
     \<lparr> cb_patient = 1, cb_doctor = 3, cb_type = ''consultation'', cb_date = ''2024-02-01'',
       cb_time = t, cb_duration = 30, cb_reason = ''Follow-up'', cb_status = None,
       cb_notes = None, cb_symptoms = [], cb_diagnosis = None, cb_treatment = None,
       cb_prescriptions = [], cb_followUpRequired = None, cb_followUpDate = None,
       cb_updatedBy = None \<rparr>"

definition empty_update :: update_body where
  "empty_update =
     \<lparr> ub_patient = None, ub_doctor = None, ub_type = None, ub_status = None,
       ub_date = None, ub_time = None, ub_duration = None, ub_reason = None,
       ub_notes = None, ub_symptoms = None, ub_diagnosis = None, ub_treatment = None,
       ub_prescriptions = None, ub_followUpRequired = None, ub_followUpDate = None,
       ub_createdBy = None, ub_updatedBy = None \<rparr>"

definition sample_server :: server where
  "sample_server =
     \<lparr> sv_new_Date = sample_Date, sv_email_match = (\<lambda>e. CHR ''@'' \<in> set e),
       sv_schema_ok =
         (\<lambda>docs u. List.member [''admin'', ''doctor'', ''nurse'', ''staff''] (u_role u)) \<rparr>"

text \<open>
  The store without appointments, after the creation of one at 10:00, and after its
  cancellation.
\<close>

definition empty_db :: db where
  "empty_db = sample_db\<lparr>appointments := []\<rparr>"

definition after_create :: db where
  "after_create =
     snd (create_appointment sample_Date 1706000000000 100 user_doctor (body_at ''10:00'') empty_db)"

definition after_cancel :: db where
  "after_cancel = snd (cancel_appointment 1706000001000 user_doctor 100 after_create)"

definition empty_patient_body :: patient_body where
  "empty_patient_body =
     \<lparr> pb_firstName = None, pb_lastName = None, pb_email = None, pb_phone = None,
       pb_dateOfBirth = None, pb_gender = None, pb_address = None,
       pb_emergencyContact = None, pb_medicalHistory = None, pb_currentMedications = None,
       pb_allergies = None, pb_bloodType = None, pb_insuranceProvider = None,
       pb_insuranceNumber = None, pb_primaryDoctor = None, pb_isActive = None,
       pb_profileImage = None, pb_notes = None \<rparr>"

definition empty_user_body :: user_body where
  "empty_user_body =
     \<lparr> usr_username = None, usr_email = None, usr_password = None, usr_firstName = None,
       usr_lastName = None, usr_role = None, usr_isActive = None, usr_lastLogin = None,
       usr_profileImage = None \<rparr>"








definition apt_fraction :: appointment where
  "apt_fraction = apt_A\<lparr>a_id := 114, a_duration := 45 / 2\<rparr>"



text \<open>The body of an account that tries to set its password and to become admin.\<close>

definition takeover_body :: user_body where
  "takeover_body =
     empty_user_body\<lparr>usr_password := Some ''hunter2'', usr_role := Some ''admin'',
                     usr_firstName := Some ''Sammy''\<rparr>"

text \<open>Two days, and a patient born on 1 January 2000.\<close>

definition march_2019 :: civil where
  "march_2019 = \<lparr> c_year = 2019, c_month = 3, c_day = 1, c_ms = 0 \<rparr>"

definition january_2018 :: civil where
  "january_2018 = \<lparr> c_year = 2018, c_month = 1, c_day = 1, c_ms = 0 \<rparr>"

definition patient_Q :: patient where
  "patient_Q =
     patient_P\<lparr>p_id := 2, p_email := ''quinn@example.org'', p_dateOfBirth := 946684800000\<rparr>"

section \<open>Strings of digits\<close>

lemma nat_digits_small: "n < 10 \<Longrightarrow> nat_digits n = [digit_char n]"
  by (subst nat_digits.simps) simp

lemma nat_digits_two:
  "10 \<le> n \<Longrightarrow> n < 100 \<Longrightarrow> nat_digits n = [digit_char (n div 10), digit_char (n mod 10)]"
  by (subst nat_digits.simps) (simp add: nat_digits_small)

lemma of_char_digit_char: "k < 10 \<Longrightarrow> (of_char (digit_char k) :: nat) = 48 + k"
proof -
  assume "k < 10"
  then have "k \<in> {0, 1, 2, 3, 4, 5, 6, 7, 8, 9}" by auto
  then show ?thesis by (auto simp: digit_char_def)
qed

lemma toString_of_int: "toString (of_int i) = integer_digits i"
  by (simp add: toString_def)

lemma toString_numeral:
  "toString (numeral k) = integer_digits (numeral k)"
  "toString 0 = integer_digits 0"
  "toString 1 = integer_digits 1"
  using toString_of_int [of "numeral k"] toString_of_int [of 0] toString_of_int [of 1]
  by simp_all

lemma pad2:
  assumes "0 \<le> n" and "n < 100"
  shows "padStart 2 CHR ''0'' (toString (of_int n)) =
           [digit_char (nat n div 10), digit_char (nat n mod 10)]"
proof (cases "n < 10")
  case True
  then have "nat n div 10 = 0" and "nat n mod 10 = nat n" using assms by auto
  moreover have "digit_char 0 = CHR ''0''" by (simp add: digit_char_def)
  ultimately show ?thesis
    using True assms
    by (simp add: padStart_def toString_of_int integer_digits_def nat_digits_small)
next
  case False
  then show ?thesis
    using assms by (simp add: padStart_def toString_of_int integer_digits_def nat_digits_two)
qed

lemma floor_numeral_quotient: "\<lfloor>(numeral a :: rat) / numeral b\<rfloor> = numeral a div numeral b"
  using floor_divide_of_int_eq [of "numeral a" "numeral b", where ?'a = rat] by simp

lemma whole_div: "\<lfloor>(of_int e :: rat) / 60\<rfloor> = e div 60"
  using floor_divide_of_int_eq [of e 60, where ?'a = rat] by simp

lemma whole_rem:
  assumes "0 \<le> e"
  shows "js_rem (of_int e) 60 = of_int (e mod 60)"
proof -
  have "\<not> (of_int e :: rat) / 60 < 0"
    using assms by simp
  moreover have "(of_int e :: rat) - 60 * of_int (e div 60) = of_int (e - 60 * (e div 60))"
    by simp
  moreover have "e - 60 * (e div 60) = e mod 60"
    by (simp add: minus_mult_div_eq_mod)
  ultimately show ?thesis
    by (simp add: js_rem_def whole_div)
qed

lemma fraction_digits_0: "fraction_digits n 0 = []"
  by (cases n) simp_all

lemma fraction_digits_half: "fraction_digits (Suc n) (1 / 2) = ''5''"
  by (simp add: fraction_digits_0 digit_char_def)

lemma char_facts:
  assumes "char_in c lo hi" and "hi \<le> 9"
  shows "is_digit c" and "c \<noteq> CHR '':''" and "int lo \<le> digit_val c" and "digit_val c \<le> int hi"
  using assms by (auto simp: char_in_def is_digit_def digit_val_def)

lemma digit_char_in: "k < 10 \<Longrightarrow> char_in (digit_char k) lo hi = (lo \<le> k \<and> k \<le> hi)"
  by (auto simp: char_in_def of_char_digit_char)

lemma digit_char_facts:
  assumes "k < 10"
  shows "is_digit (digit_char k)" and "digit_char k \<noteq> CHR '':''"
    and "digit_val (digit_char k) = int k"
  using assms
  by (auto simp: is_digit_def digit_val_def of_char_digit_char
        dest: arg_cong [where f = "of_char :: char \<Rightarrow> nat"])

lemma digit_char_two: "k < 10 \<Longrightarrow> (digit_char k = CHR ''2'') = (k = 2)"
proof -
  assume k: "k < 10"
  have "(of_char (CHR ''2'') :: nat) = 50" by simp
  then show ?thesis
    using of_char_digit_char [OF k] by (auto simp: digit_char_def)
qed

text \<open>Reading a time that matches the schema's pattern.\<close>

lemma read_time:
  assumes "time_match t"
  shows "\<exists>h m. 0 \<le> h \<and> h < 24 \<and> 0 \<le> m \<and> m < 60 \<and>
           clock_minutes t = h * 60 + m \<and>
           hhmm_minutes t = Some (h * 60 + m) \<and>
           parseInt (element (split CHR '':'' t) 0) = Some h \<and>
           parseInt (element (split CHR '':'' t) 1) = Some m"
proof (cases t rule: time_match.cases)
  case (1 h c m1 m2)
  with assms have c: "char_in h 0 9" "c = CHR '':''" "char_in m1 0 5" "char_in m2 0 9"
    by simp_all
  note fh = char_facts [OF c(1)] and f1 = char_facts [OF c(3)] and f2 = char_facts [OF c(4)]
  show ?thesis
    using 1 c(2) fh f1 f2
    by (simp add: hhmm_minutes_def element_def Number_def parseInt_def)
next
  case (2 h1 h2 c m1 m2)
  with assms have c: "c = CHR '':''" "char_in m1 0 5" "char_in m2 0 9"
    and hh: "(char_in h1 0 1 \<and> char_in h2 0 9) \<or> (h1 = CHR ''2'' \<and> char_in h2 0 3)"
    by simp_all
  note f1 = char_facts [OF c(2)] and f2 = char_facts [OF c(3)]
  from hh have h: "is_digit h1 \<and> is_digit h2 \<and> h1 \<noteq> CHR '':'' \<and> h2 \<noteq> CHR '':'' \<and>
      0 \<le> digit_val h1 * 10 + digit_val h2 \<and> digit_val h1 * 10 + digit_val h2 < 24"
    by (auto simp: char_in_def is_digit_def digit_val_def)
  show ?thesis
    using 2 c(1) h f1 f2
    by (simp add: hhmm_minutes_def element_def Number_def parseInt_def)
qed (use assms in simp_all)


text \<open>Reading back two padded numbers around a colon.\<close>

lemma hhmm_two_digits:
  assumes "a < 10" "b < 10" "c < 10" "d < 10"
  shows "hhmm_minutes ([digit_char a, digit_char b] @ '':'' @ [digit_char c, digit_char d]) =
           Some ((int a * 10 + int b) * 60 + (int c * 10 + int d))"
    and "clock_minutes ([digit_char a, digit_char b] @ '':'' @ [digit_char c, digit_char d]) =
           (int a * 10 + int b) * 60 + (int c * 10 + int d)"
  using digit_char_facts [OF assms(1)] digit_char_facts [OF assms(2)]
        digit_char_facts [OF assms(3)] digit_char_facts [OF assms(4)]
  by (simp_all add: hhmm_minutes_def element_def Number_def)

lemma time_match_two_digits:
  assumes "a < 10" "b < 10" "c < 10" "d < 10"
  shows "time_match ([digit_char a, digit_char b] @ '':'' @ [digit_char c, digit_char d]) =
           (a * 10 + b < 24 \<and> c < 6)"
  using assms by (auto simp: digit_char_in digit_char_two)

lemma write_read:
  assumes "0 \<le> H" "H < 100" "0 \<le> M" "M < 60"
  shows "clock_minutes [digit_char (nat H div 10), digit_char (nat H mod 10), CHR '':'',
                        digit_char (nat M div 10), digit_char (nat M mod 10)] = H * 60 + M"
    and "time_match [digit_char (nat H div 10), digit_char (nat H mod 10), CHR '':'',
                     digit_char (nat M div 10), digit_char (nat M mod 10)] = (H < 24)"
proof -
  let ?a = "nat H div 10" and ?b = "nat H mod 10" and ?c = "nat M div 10" and ?d = "nat M mod 10"
  have bounds: "?a < 10" "?b < 10" "?c < 10" "?d < 10"
    using assms by auto
  have str: "[digit_char ?a, digit_char ?b, CHR '':'', digit_char ?c, digit_char ?d] =
      [digit_char ?a, digit_char ?b] @ '':'' @ [digit_char ?c, digit_char ?d]"
    by simp
  have H: "int ?a * 10 + int ?b = H" and M: "int ?c * 10 + int ?d = M"
    using assms by (simp_all add: of_nat_div of_nat_mod)
  show "clock_minutes [digit_char ?a, digit_char ?b, CHR '':'', digit_char ?c, digit_char ?d]
          = H * 60 + M"
    unfolding str hhmm_two_digits(2) [OF bounds] H M ..
  have "?a * 10 + ?b = nat H" by auto
  moreover have "?c < 6" using assms by auto
  ultimately show "time_match [digit_char ?a, digit_char ?b, CHR '':'', digit_char ?c, digit_char ?d]
           = (H < 24)"
    unfolding str time_match_two_digits [OF bounds] using assms by auto
qed

section \<open>Properties of the availability calculator\<close>



























text \<open>
  C9. Without a date in the query (or with an empty one) the handler answers 400 with
  the message \<^verbatim>\<open>Date is required\<close>, issues no query on the appointments and leaves
  the datastore as it is.
\<close>

theorem availability_requires_date:
  "get_availability new_Date doctorId None s =
     ((\<lparr> res_status = 400, res_success = False, res_message = Some ''Date is required'',
         res_data = No_data \<rparr>, []), s) \<and>
   get_availability new_Date doctorId (Some []) s =
     ((\<lparr> res_status = 400, res_success = False, res_message = Some ''Date is required'',
         res_data = No_data \<rparr>, []), s)"
  by (simp add: get_availability_def failure_def)








section \<open>Properties of the virtual \<open>endTime\<close>\<close>

text \<open>
  C5, as the code has it. For a stored appointment (a time that matches the schema's
  pattern) whose duration is a whole number of minutes from 15 to 480, \<open>endTime\<close> is the
  start plus the duration, written as the hours (the minutes divided by 60, not reduced
  modulo 24) and the minutes, each with two digits. Read back as hours and minutes it
  is start + duration; it is a 24-hour HH:MM time exactly when the appointment ends
  before midnight.
\<close>

theorem endTime_unwrapped:
  assumes "time_match (a_time a)" and "a_duration a = of_int d" and "15 \<le> d" and "d \<le> 480"
  shows "\<exists>start H M.
           start = clock_minutes (a_time a) \<and> 0 \<le> start \<and> start < 1440 \<and>
           H = (start + d) div 60 \<and> M = (start + d) mod 60 \<and>
           endTime a =
             padStart 2 CHR ''0'' (toString (of_int H)) @ '':'' @
             padStart 2 CHR ''0'' (toString (of_int M)) \<and>
           endTime a =
             [digit_char (nat H div 10), digit_char (nat H mod 10), CHR '':'',
              digit_char (nat M div 10), digit_char (nat M mod 10)] \<and>
           clock_minutes (endTime a) = start + d \<and>
           time_match (endTime a) = (start + d < 1440)"
proof -
  from read_time [OF assms(1)] obtain h m where hm:
    "0 \<le> h" "h < 24" "0 \<le> m" "m < 60" "clock_minutes (a_time a) = h * 60 + m"
    "parseInt (element (split CHR '':'' (a_time a)) 0) = Some h"
    "parseInt (element (split CHR '':'' (a_time a)) 1) = Some m"
    by blast
  define e where "e = h * 60 + m + d"
  have e: "0 \<le> e" "e < 1920"
    using hm assms by (auto simp: e_def)
  have sum: "(of_int (h * 60 + m) :: rat) + a_duration a = of_int e"
    by (simp add: assms(2) e_def)
  have fmt: "endTime a =
      padStart 2 CHR ''0'' (toString (of_int (e div 60))) @ '':'' @
      padStart 2 CHR ''0'' (toString (of_int (e mod 60)))"
    unfolding endTime_def Let_def hm(6,7) using e(1)
    by (simp add: sum whole_div whole_rem del: of_int_add of_int_mult)
  have H: "0 \<le> e div 60" "e div 60 < 100" and M: "0 \<le> e mod 60" "e mod 60 < 60"
    and M': "e mod 60 < 100"
    using e by auto
  have digits: "endTime a =
      [digit_char (nat (e div 60) div 10), digit_char (nat (e div 60) mod 10), CHR '':'',
       digit_char (nat (e mod 60) div 10), digit_char (nat (e mod 60) mod 10)]"
    unfolding fmt pad2 [OF H] pad2 [OF M(1) M'] by simp
  have e_split: "e div 60 * 60 + e mod 60 = e"
    by simp
  have reread: "clock_minutes (endTime a) = e"
    unfolding digits write_read(1) [OF H M] by (rule e_split)
  have valid: "time_match (endTime a) = (e < 1440)"
    unfolding digits write_read(2) [OF H M] using e by auto
  show ?thesis
    using hm(1-5) fmt digits reread valid
    by (intro exI [of _ "h * 60 + m"] exI [of _ "e div 60"] exI [of _ "e mod 60"])
       (auto simp: e_def)
qed

theorem endTime_unwrapped_witness:
  "time_match (a_time apt_A) \<and> a_duration apt_A = of_int 30 \<and> (15::int) \<le> 30 \<and> (30::int) \<le> 480 \<and>
   clock_minutes (a_time apt_A) = 600 \<and>
   endTime apt_A = ''10:30'' \<and> clock_minutes (endTime apt_A) = 630 \<and>
   time_match (endTime apt_A)"
proof -
  have h1: "time_match (a_time apt_A)" by (simp add: apt_A_def char_in_def)
  have h2: "a_duration apt_A = of_int 30" by (simp add: apt_A_def)
  have start: "clock_minutes (a_time apt_A) = 600"
    by (simp add: apt_A_def digit_val_def)
  from endTime_unwrapped [OF h1 h2] start
  have "endTime apt_A = ''10:30'' \<and> clock_minutes (endTime apt_A) = 630 \<and>
        time_match (endTime apt_A)"
    by (auto simp: digit_char_def)
  with h1 h2 start show ?thesis by (simp add: digit_val_def char_in_def)
qed

text \<open>
  An appointment at 23:30 that lasts 60 minutes: its \<open>endTime\<close> is \<^verbatim>\<open>24:30\<close>, which is
  not 00:30 and not a 24-hour time. An appointment at 10:00 that lasts 22 minutes and a
  half, which an update can store: its \<open>endTime\<close> is \<^verbatim>\<open>10:22.5\<close>, which is no HH:MM
  string.
\<close>

theorem endTime_wraps_counterexample:
  "time_match (a_time apt_late) \<and> 15 \<le> a_duration apt_late \<and> a_duration apt_late \<le> 480 \<and>
   a_time apt_late = ''23:30'' \<and> a_duration apt_late = 60 \<and>
   endTime apt_late = ''24:30'' \<and> endTime apt_late \<noteq> ''00:30'' \<and>
   \<not> time_match (endTime apt_late) \<and>
   time_match (a_time apt_fraction) \<and> 15 \<le> a_duration apt_fraction \<and>
   a_duration apt_fraction \<le> 480 \<and>
   a_time apt_fraction = ''10:00'' \<and> a_duration apt_fraction = 45 / 2 \<and>
   endTime apt_fraction = ''10:22.5'' \<and> \<not> time_match (endTime apt_fraction)"
proof -
  have late: "endTime apt_late = ''24:30''"
    by (simp add: apt_late_def apt_A_def endTime_def element_def parseInt_def is_digit_def
          digit_val_def toString_numeral integer_digits_def padStart_def js_rem_def
          floor_numeral_quotient nat_digits_small nat_digits_two digit_char_def)
  have "toString (45 / 2) = ''22.5''"
    using fraction_digits_half [of 19]
    by (simp add: toString_def floor_numeral_quotient nat_digits_two digit_char_def)
  then have fraction: "endTime apt_fraction = ''10:22.5''"
    by (simp add: apt_fraction_def apt_A_def endTime_def element_def parseInt_def is_digit_def
          digit_val_def toString_numeral integer_digits_def padStart_def js_rem_def
          floor_numeral_quotient nat_digits_small nat_digits_two digit_char_def)
  show ?thesis
    unfolding late fraction
    by (simp add: apt_late_def apt_fraction_def apt_A_def char_in_def)
qed

section \<open>Properties of the conflict check\<close>





lemma findById_Some:
  "Appointment_findById docs i = Some a \<Longrightarrow> a \<in> set docs \<and> a_id a = i"
  by (auto simp: Appointment_findById_def find_Some_iff)









section \<open>Properties of the unique index\<close>

lemma map_unchanged: "\<forall>x\<in>set xs. \<not> P x \<Longrightarrow> map (\<lambda>x. if P x then y else x) xs = xs"
  by (induction xs) auto

lemma replace_keeps_distinct:
  assumes "distinct (map k xs)"
    and "\<forall>x\<in>set xs. P x \<longrightarrow> k x = k0"
    and "\<forall>x\<in>set xs. \<not> P x \<longrightarrow> k x \<noteq> k y"
  shows "distinct (map k (map (\<lambda>x. if P x then y else x) xs))"
  using assms
proof (induction xs)
  case Nil
  then show ?case by simp
next
  case (Cons x xs)
  show ?case
  proof (cases "P x")
    case True
    then have kx: "k x = k0" using Cons.prems(2) by simp
    have "\<forall>z\<in>set xs. \<not> P z"
    proof
      fix z assume z: "z \<in> set xs"
      show "\<not> P z"
      proof
        assume "P z"
        then have "k z = k0" using Cons.prems(2) z by simp
        then have "k x \<in> k ` set xs" using kx z by force
        then show False using Cons.prems(1) by simp
      qed
    qed
    then have same: "map (\<lambda>x. if P x then y else x) xs = xs"
      and other: "\<forall>z\<in>set xs. k z \<noteq> k y"
      using Cons.prems(3) by (simp_all add: map_unchanged)
    from other have "k y \<notin> k ` set xs" by force
    with True same Cons.prems(1) show ?thesis by simp
  next
    case False
    then have ky: "k x \<noteq> k y" using Cons.prems(3) by simp
    have fresh: "k x \<notin> k ` set (map (\<lambda>x. if P x then y else x) xs)"
      using Cons.prems(1) ky by force
    have rest: "distinct (map k (map (\<lambda>x. if P x then y else x) xs))"
      using Cons by simp
    have "map k (map (\<lambda>x. if P x then y else x) (x # xs)) =
          k x # map k (map (\<lambda>x. if P x then y else x) xs)"
      using False by simp
    with fresh rest show ?thesis by (simp only: distinct.simps set_map) simp
  qed
qed

lemma same_id_same_doc:
  "ids_distinct docs \<Longrightarrow> a \<in> set docs \<Longrightarrow> b \<in> set docs \<Longrightarrow> a_id b = a_id a \<Longrightarrow> b = a"
  by (auto simp: ids_distinct_def distinct_map dest: inj_onD)

lemma insert_keeps_index:
  assumes "Appointment_insert a docs = Inr (doc, docs')"
    and "ids_distinct docs" and "unique_index docs"
  shows "ids_distinct docs' \<and> unique_index docs'"
proof -
  from assms(1) have new: "docs' = docs @ [a]" "\<not> list_ex (\<lambda>b. a_id b = a_id a) docs"
      "\<not> list_ex (same_slot a) docs"
    by (auto simp: Appointment_insert_def split: if_splits)
  from new(2) have "a_id a \<notin> a_id ` set docs" by (auto simp: list_ex_iff)
  moreover from new(3) have "slot_key a \<notin> slot_key ` set docs"
    by (auto simp: list_ex_iff same_slot_def slot_key_def)
  ultimately show ?thesis
    using assms(2,3) new(1) by (simp add: ids_distinct_def unique_index_def)
qed

lemma update_keeps_index:
  assumes "Appointment_update now old new docs = Inr (doc, docs')"
    and "old \<in> set docs" and "a_id new = a_id old"
    and "ids_distinct docs" and "unique_index docs"
  shows "ids_distinct docs' \<and> unique_index docs'"
proof (cases "new = old")
  case True
  with assms show ?thesis by (simp add: Appointment_update_def split: if_splits)
next
  case False
  let ?new = "new\<lparr>a_updatedAt := now\<rparr>"
  let ?P = "\<lambda>b. a_id b = a_id old"
  from assms(1) False have docs': "docs' = map (\<lambda>b. if ?P b then ?new else b) docs"
    and free: "same_slot old new \<or> \<not> list_ex (\<lambda>b. a_id b \<noteq> a_id old \<and> same_slot new b) docs"
    by (auto simp: Appointment_update_def split: if_splits)
  have only: "\<forall>b\<in>set docs. ?P b \<longrightarrow> b = old"
    using same_id_same_doc [OF assms(4,2)] by blast
  have ids: "map a_id docs' = map a_id docs"
    unfolding docs' using assms(3) by (induction docs) auto
  have keys: "\<forall>b\<in>set docs. \<not> ?P b \<longrightarrow> slot_key b \<noteq> slot_key ?new"
  proof (intro ballI impI)
    fix b assume b: "b \<in> set docs" "\<not> ?P b"
    from free show "slot_key b \<noteq> slot_key ?new"
    proof
      assume "same_slot old new"
      then have "slot_key ?new = slot_key old" by (simp add: same_slot_def slot_key_def)
      moreover have "slot_key b \<noteq> slot_key old"
        using assms(5,2) b by (auto simp: unique_index_def distinct_map dest: inj_onD)
      ultimately show ?thesis by simp
    next
      assume "\<not> list_ex (\<lambda>b. a_id b \<noteq> a_id old \<and> same_slot new b) docs"
      then show ?thesis using b by (auto simp: list_ex_iff same_slot_def slot_key_def)
    qed
  qed
  have "distinct (map slot_key docs')"
    unfolding docs'
    by (rule replace_keeps_distinct [where ?k0.0 = "slot_key old"])
       (use assms(5) only keys in \<open>auto simp: unique_index_def\<close>)
  then show ?thesis
    using ids assms(4) by (simp add: ids_distinct_def unique_index_def)
qed

lemma Object_assign_id: "Object_assign new_Date a body = Some b \<Longrightarrow> a_id b = a_id a"
  by (auto simp: Object_assign_def split: option.splits)

lemma create_keeps_index:
  assumes "ids_distinct (appointments s)" and "unique_index (appointments s)"
  shows "ids_distinct (appointments (snd (create_appointment new_Date now oid req_user body s))) \<and>
         unique_index (appointments (snd (create_appointment new_Date now oid req_user body s)))"
  using assms insert_keeps_index
  by (auto simp: create_appointment_def split: option.splits sum.splits)

lemma update_handler_keeps_index:
  assumes "ids_distinct (appointments s)" and "unique_index (appointments s)"
  shows "ids_distinct (appointments (snd (update_appointment new_Date now req_user i body s))) \<and>
         unique_index (appointments (snd (update_appointment new_Date now req_user i body s)))"
proof (cases "Appointment_findById (appointments s) i")
  case None
  with assms show ?thesis by (simp add: update_appointment_def)
next
  case (Some a)
  then have a: "a \<in> set (appointments s)" using findById_Some by blast
  show ?thesis
  proof (cases "Object_assign new_Date a body")
    case None
    with Some assms show ?thesis
      by (simp add: update_appointment_def split: guard.splits)
  next
    case (Some b)
    then have id: "a_id (b\<lparr>a_updatedBy := Some (u_id req_user)\<rparr>) = a_id a"
      using Object_assign_id by simp
    show ?thesis
    proof (cases "Appointment_update now a (b\<lparr>a_updatedBy := Some (u_id req_user)\<rparr>)
                    (appointments s)")
      case (Inl err)
      with Some \<open>Appointment_findById (appointments s) i = Some a\<close> assms show ?thesis
        by (simp add: update_appointment_def split: guard.splits)
    next
      case (Inr r)
      obtain doc docs' where r: "r = (doc, docs')" by (cases r)
      from update_keeps_index [OF Inr [unfolded r] a id assms]
      show ?thesis
        using Some \<open>Appointment_findById (appointments s) i = Some a\<close> Inr r assms
        by (simp add: update_appointment_def split: guard.splits)
    qed
  qed
qed

lemma cancel_keeps_index:
  assumes "ids_distinct (appointments s)" and "unique_index (appointments s)"
  shows "ids_distinct (appointments (snd (cancel_appointment now req_user i s))) \<and>
         unique_index (appointments (snd (cancel_appointment now req_user i s)))"
proof (cases "Appointment_findById (appointments s) i")
  case None
  with assms show ?thesis by (simp add: cancel_appointment_def)
next
  case (Some a)
  then have a: "a \<in> set (appointments s)" using findById_Some by blast
  let ?new = "a\<lparr>a_status := ''cancelled'', a_updatedBy := Some (u_id req_user)\<rparr>"
  show ?thesis
  proof (cases "Appointment_update now a ?new (appointments s)")
    case (Inl err)
    with Some assms show ?thesis by (simp add: cancel_appointment_def)
  next
    case (Inr r)
    obtain doc docs' where r: "r = (doc, docs')" by (cases r)
    have id: "a_id ?new = a_id a" by simp
    from update_keeps_index [OF Inr [unfolded r] a id assms]
    show ?thesis
      using Some Inr r by (simp add: cancel_appointment_def)
  qed
qed

lemma other_routes_keep_appointments:
  "appointments (snd (get_availability nd doctorId dp s)) = appointments s"
  "appointments (snd (get_patient i s)) = appointments s"
  "appointments (snd (create_patient em now oid pbody s)) = appointments s"
  "appointments (snd (update_patient em now i pbody s)) = appointments s"
  "appointments (snd (delete_patient em now i s)) = appointments s"
  "appointments (snd (update_user ok req_user i ubody s)) = appointments s"
  by (auto simp: get_availability_def get_patient_def create_patient_def update_patient_def
        delete_patient_def update_user_def Let_def split: option.splits sum.splits)

lemma route_keeps_index:
  assumes "ids_distinct (appointments s)" and "unique_index (appointments s)"
  shows "ids_distinct (appointments (snd (route sv r s))) \<and>
         unique_index (appointments (snd (route sv r s)))"
  using assms
  by (cases r)
     (simp_all add: other_routes_keep_appointments create_keeps_index
        update_handler_keeps_index cancel_keeps_index)

lemma serve_keeps_index:
  "ids_distinct (appointments s) \<Longrightarrow> unique_index (appointments s) \<Longrightarrow>
     ids_distinct (appointments (serve sv rs s)) \<and> unique_index (appointments (serve sv rs s))"
proof (induction rs arbitrary: s)
  case Nil
  then show ?case by simp
next
  case (Cons r rs)
  from route_keeps_index [OF Cons.prems, of sv r] Cons.IH show ?case by simp
qed

text \<open>Creating, cancelling, creating again on the same slot.\<close>

lemma create_success:
  assumes "create_appointment nd now oid u body s = (r, s1)" and "res_status r = 201"
  shows "\<exists>d. nd (cb_date body) = Some d \<and>
           patient_found (patients s) (cb_patient body) \<and>
           doctor_found (users s) (cb_doctor body) \<and>
           appointment_valid (new_Appointment now oid d (u_id u) body) \<and>
           \<not> list_ex (\<lambda>b. a_id b = oid) (appointments s) \<and>
           \<not> list_ex (same_slot (new_Appointment now oid d (u_id u) body)) (appointments s) \<and>
           s1 = s\<lparr>appointments := appointments s @ [new_Appointment now oid d (u_id u) body]\<rparr>"
  using assms
  by (auto simp: create_appointment_def Appointment_insert_def failure_def internal_error_def
        conflict_response_def new_Appointment_def
        split: if_splits option.splits sum.splits)

lemma find_last:
  "\<not> list_ex (\<lambda>b. a_id b = a_id A) docs \<Longrightarrow> Appointment_findById (docs @ [A]) (a_id A) = Some A"
  by (induction docs) (auto simp: Appointment_findById_def)

lemma map_others:
  "\<not> list_ex (\<lambda>b. a_id b = i) docs \<Longrightarrow> map (\<lambda>b. if a_id b = i then A' else b) docs = docs"
  by (induction docs) auto

lemma cancelled_valid:
  "appointment_valid A \<Longrightarrow> appointment_valid (A\<lparr>a_status := ''cancelled'', a_updatedBy := x\<rparr>)"
  by (simp add: appointment_valid_def appointment_statuses_def)

lemma cancel_last:
  assumes "\<not> list_ex (\<lambda>b. a_id b = a_id A) docs" and "appointment_valid A"
  shows "\<exists>A'. cancel_appointment now u (a_id A) (s\<lparr>appointments := docs @ [A]\<rparr>) =
             (\<lparr> res_status = 200, res_success = True,
                res_message = Some ''Appointment cancelled successfully'',
                res_data = No_data \<rparr>, s\<lparr>appointments := docs @ [A']\<rparr>) \<and>
           a_status A' = ''cancelled'' \<and> a_id A' = a_id A \<and> same_slot A' A"
proof (cases "A\<lparr>a_status := ''cancelled'', a_updatedBy := Some (u_id u)\<rparr> = A")
  case True
  then have "a_status A = ''cancelled''"
    by (metis appointment.select_convs(5) appointment.surjective appointment.update_convs(5)
          appointment.update_convs(18))
  with True assms show ?thesis
    by (intro exI [of _ A])
       (simp add: cancel_appointment_def find_last Appointment_update_def cancelled_valid
          same_slot_def)
next
  case False
  with assms show ?thesis
    by (intro exI [of _ "A\<lparr>a_status := ''cancelled'', a_updatedBy := Some (u_id u),
                           a_updatedAt := now\<rparr>"])
       (simp add: cancel_appointment_def find_last Appointment_update_def cancelled_valid
          same_slot_def map_others)
qed

lemma rebooking_refused:
  assumes "\<not> list_ex (same_slot A) docs" and "inactive_status (a_status A')"
    and "same_slot A' A"
    and "a_doctor A = cb_doctor body" and "a_date A = d" and "a_time A = cb_time body"
    and "nd (cb_date body) = Some d"
    and "patient_found (patients s) (cb_patient body)"
    and "doctor_found (users s) (cb_doctor body)"
  shows "conflictingAppointment (docs @ [A']) None (cb_doctor body) d (cb_time body) = None"
    and "appointment_valid (new_Appointment now oid d uid body) \<Longrightarrow>
           Appointment_insert (new_Appointment now oid d uid body) (docs @ [A']) = Inl DuplicateKey"
    and "create_appointment nd now oid usr body (s\<lparr>appointments := docs @ [A']\<rparr>) =
           (internal_error, s\<lparr>appointments := docs @ [A']\<rparr>)"
proof -
  have none: "\<forall>b\<in>set docs. \<not> (a_doctor b = cb_doctor body \<and> a_date b = d \<and> a_time b = cb_time body)"
    using assms(1,4,5,6) by (auto simp: list_ex_iff same_slot_def)
  show free: "conflictingAppointment (docs @ [A']) None (cb_doctor body) d (cb_time body) = None"
    using none assms(2) by (auto simp: conflictingAppointment_def find_None_iff)
  have taken: "list_ex (same_slot (new_Appointment now oid d uid body)) (docs @ [A'])"
    for now oid uid
    using assms(3-6) by (simp add: same_slot_def new_Appointment_def)
  show "appointment_valid (new_Appointment now oid d uid body) \<Longrightarrow>
           Appointment_insert (new_Appointment now oid d uid body) (docs @ [A']) = Inl DuplicateKey"
    using taken [of now oid uid] by (simp add: Appointment_insert_def)
  have "\<exists>err. Appointment_insert (new_Appointment now oid d (u_id usr) body) (docs @ [A']) = Inl err"
    using taken [of now oid "u_id usr"] by (simp add: Appointment_insert_def)
  then show "create_appointment nd now oid usr body (s\<lparr>appointments := docs @ [A']\<rparr>) =
           (internal_error, s\<lparr>appointments := docs @ [A']\<rparr>)"
    using assms(7-9) free by (auto simp: create_appointment_def)
qed

text \<open>
  C3. Whatever requests are served, no two appointment documents share the key
  (doctor, date, time) of the unique index, whatever their status: the index holds on
  the empty collection and every request keeps it (given that identifiers are unique,
  which the requests keep as well). So, when an appointment is created (201) and then
  cancelled, the cancellation succeeds and leaves the document on its slot; a later
  creation on the same doctor, date and time passes the conflict check (which finds no
  active appointment) and is then refused by the index when it is saved: the handler
  answers 500 and the store is unchanged.
\<close>

theorem unique_index_maintained:
  "unique_index (appointments (serve sv rs (st\<lparr>appointments := []\<rparr>))) \<and>
   (ids_distinct (appointments st) \<and> unique_index (appointments st) \<longrightarrow>
      unique_index (appointments (serve sv rs st))) \<and>
   (create_appointment nd now1 oidA userA bodyA s = (rA, s1) \<and> res_status rA = 201 \<and>
    cancel_appointment now2 userC oidA s1 = (rC, s2) \<and>
    cb_doctor bodyB = cb_doctor bodyA \<and> cb_date bodyB = cb_date bodyA \<and>
    cb_time bodyB = cb_time bodyA \<and> patient_found (patients s) (cb_patient bodyB) \<longrightarrow>
      res_status rC = 200 \<and>
      (\<exists>d. nd (cb_date bodyB) = Some d \<and>
           conflictingAppointment (appointments s2) None (cb_doctor bodyB) d (cb_time bodyB) = None \<and>
           (appointment_valid (new_Appointment now3 oidB d (u_id userB) bodyB) \<longrightarrow>
              Appointment_insert (new_Appointment now3 oidB d (u_id userB) bodyB) (appointments s2)
                = Inl DuplicateKey)) \<and>
      create_appointment nd now3 oidB userB bodyB s2 = (internal_error, s2))"
proof (intro conjI impI)
  show "unique_index (appointments (serve sv rs (st\<lparr>appointments := []\<rparr>)))"
    using serve_keeps_index [of "st\<lparr>appointments := []\<rparr>" sv rs]
    by (simp add: ids_distinct_def unique_index_def)
next
  assume "ids_distinct (appointments st) \<and> unique_index (appointments st)"
  then show "unique_index (appointments (serve sv rs st))"
    using serve_keeps_index [of st sv rs] by simp
next
  assume scenario:
    "create_appointment nd now1 oidA userA bodyA s = (rA, s1) \<and> res_status rA = 201 \<and>
     cancel_appointment now2 userC oidA s1 = (rC, s2) \<and>
     cb_doctor bodyB = cb_doctor bodyA \<and> cb_date bodyB = cb_date bodyA \<and>
     cb_time bodyB = cb_time bodyA \<and> patient_found (patients s) (cb_patient bodyB)"
  from create_success [of nd now1 oidA userA bodyA s rA s1] scenario
  obtain d where d: "nd (cb_date bodyA) = Some d"
    and doctor: "doctor_found (users s) (cb_doctor bodyA)"
    and valid: "appointment_valid (new_Appointment now1 oidA d (u_id userA) bodyA)"
    and fresh: "\<not> list_ex (\<lambda>b. a_id b = oidA) (appointments s)"
    and free: "\<not> list_ex (same_slot (new_Appointment now1 oidA d (u_id userA) bodyA)) (appointments s)"
    and s1: "s1 = s\<lparr>appointments := appointments s @ [new_Appointment now1 oidA d (u_id userA) bodyA]\<rparr>"
    by blast
  let ?A = "new_Appointment now1 oidA d (u_id userA) bodyA"
  have idA: "a_id ?A = oidA" by (simp add: new_Appointment_def)
  from cancel_last [of ?A "appointments s" now2 userC s] fresh valid idA
  obtain A' where cancel: "cancel_appointment now2 userC oidA s1 =
        (\<lparr> res_status = 200, res_success = True,
           res_message = Some ''Appointment cancelled successfully'',
           res_data = No_data \<rparr>, s\<lparr>appointments := appointments s @ [A']\<rparr>)"
    and A': "a_status A' = ''cancelled''" "same_slot A' ?A"
    unfolding s1 by auto
  from cancel scenario have rC: "res_status rC = 200"
    and s2: "s2 = s\<lparr>appointments := appointments s @ [A']\<rparr>"
    by auto
  have inactive: "inactive_status (a_status A')"
    using A'(1) by (simp add: inactive_status_def)
  have key: "a_doctor ?A = cb_doctor bodyB" "a_date ?A = d" "a_time ?A = cb_time bodyB"
    using scenario by (simp_all add: new_Appointment_def)
  have dB: "nd (cb_date bodyB) = Some d" using d scenario by simp
  have pB: "patient_found (patients s) (cb_patient bodyB)"
    and docB: "doctor_found (users s) (cb_doctor bodyB)"
    using scenario doctor by simp_all
  note refused = rebooking_refused
      [where A = "?A" and docs = "appointments s" and A' = A' and body = bodyB and d = d
         and nd = nd and s = s, OF free inactive A'(2) key dB pB docB]
  show "res_status rC = 200" by (rule rC)
  show "\<exists>d. nd (cb_date bodyB) = Some d \<and>
           conflictingAppointment (appointments s2) None (cb_doctor bodyB) d (cb_time bodyB) = None \<and>
           (appointment_valid (new_Appointment now3 oidB d (u_id userB) bodyB) \<longrightarrow>
              Appointment_insert (new_Appointment now3 oidB d (u_id userB) bodyB) (appointments s2)
                = Inl DuplicateKey)"
    using dB refused(1) refused(2) [of now3 oidB "u_id userB"] unfolding s2 by auto
  show "create_appointment nd now3 oidB userB bodyB s2 = (internal_error, s2)"
    unfolding s2 using refused(3) [of now3 oidB userB] by simp
qed

lemma sample_create:
  "create_appointment sample_Date 1706000000000 100 user_doctor (body_at ''10:00'') empty_db =
     (\<lparr> res_status = 201, res_success = True,
        res_message = Some ''Appointment created successfully'',
        res_data = Appointment_data
          (new_Appointment 1706000000000 100 1706745600000 3 (body_at ''10:00'')) \<rparr>,
      empty_db\<lparr>appointments := [new_Appointment 1706000000000 100 1706745600000 3 (body_at ''10:00'')]\<rparr>)"
  by (simp add: create_appointment_def empty_db_def sample_db_def patient_found_def
        doctor_found_def patient_P_def user_doctor_def user_staff_def body_at_def sample_Date_def
        conflictingAppointment_def Appointment_insert_def new_Appointment_def
        appointment_valid_def appointment_types_def appointment_statuses_def char_in_def
        maxlength_def)

theorem unique_index_maintained_witness:
  "ids_distinct (appointments sample_db2) \<and> unique_index (appointments sample_db2) \<and>
   unique_index (appointments (serve sample_server
      [POST_appointment 1706000000000 103 user_doctor (body_at ''10:15''),
       PUT_appointment 1706000001000 user_doctor 102 (empty_update\<lparr>ub_time := Some ''10:15''\<rparr>),
       DELETE_appointment 1706000002000 user_doctor 100] sample_db2)) \<and>
   res_status (fst (create_appointment sample_Date 1706000000000 100 user_doctor
                      (body_at ''10:00'') empty_db)) = 201 \<and>
   patient_found (patients empty_db) (cb_patient (body_at ''10:00'')) \<and>
   res_status (fst (cancel_appointment 1706000001000 user_doctor 100 after_create)) = 200 \<and>
   conflictingAppointment (appointments after_cancel) None 3 1706745600000 ''10:00'' = None \<and>
   create_appointment sample_Date 1706000002000 101 user_staff (body_at ''10:00'') after_cancel =
     (internal_error, after_cancel)"
proof -
  have inv: "ids_distinct (appointments sample_db2) \<and> unique_index (appointments sample_db2)"
    by (simp add: ids_distinct_def unique_index_def sample_db2_def slot_key_def
          apt_A_def apt_B_def)
  have created: "res_status (fst (create_appointment sample_Date 1706000000000 100 user_doctor
                      (body_at ''10:00'') empty_db)) = 201"
    by (simp add: sample_create)
  have found: "patient_found (patients empty_db) (cb_patient (body_at ''10:00''))"
    by (simp add: patient_found_def empty_db_def sample_db_def patient_P_def body_at_def)
  note inst = unique_index_maintained
      [where sv = sample_server and st = sample_db2
         and rs = "[POST_appointment 1706000000000 103 user_doctor (body_at ''10:15''),
                    PUT_appointment 1706000001000 user_doctor 102 (empty_update\<lparr>ub_time := Some ''10:15''\<rparr>),
                    DELETE_appointment 1706000002000 user_doctor 100]"
         and nd = sample_Date and ?now1.0 = 1706000000000 and oidA = 100 and userA = user_doctor
         and bodyA = "body_at ''10:00''" and s = empty_db
         and rA = "fst (create_appointment sample_Date 1706000000000 100 user_doctor
                          (body_at ''10:00'') empty_db)"
         and ?s1.0 = after_create and ?now2.0 = 1706000001000 and userC = user_doctor
         and rC = "fst (cancel_appointment 1706000001000 user_doctor 100 after_create)"
         and ?s2.0 = after_cancel and bodyB = "body_at ''10:00''"
         and ?now3.0 = 1706000002000 and oidB = 101 and userB = user_staff]
  have scenario:
    "create_appointment sample_Date 1706000000000 100 user_doctor (body_at ''10:00'') empty_db =
       (fst (create_appointment sample_Date 1706000000000 100 user_doctor
               (body_at ''10:00'') empty_db), after_create) \<and>
     res_status (fst (create_appointment sample_Date 1706000000000 100 user_doctor
                        (body_at ''10:00'') empty_db)) = 201 \<and>
     cancel_appointment 1706000001000 user_doctor 100 after_create =
       (fst (cancel_appointment 1706000001000 user_doctor 100 after_create), after_cancel) \<and>
     cb_doctor (body_at ''10:00'') = cb_doctor (body_at ''10:00'') \<and>
     cb_date (body_at ''10:00'') = cb_date (body_at ''10:00'') \<and>
     cb_time (body_at ''10:00'') = cb_time (body_at ''10:00'') \<and>
     patient_found (patients empty_db) (cb_patient (body_at ''10:00''))"
    using created found by (simp add: after_create_def after_cancel_def)
  note kept = inst [THEN conjunct2, THEN conjunct1, rule_format, OF inv]
  note refused = inst [THEN conjunct2, THEN conjunct2, rule_format, OF scenario]
  from refused have "\<exists>d. sample_Date (cb_date (body_at ''10:00'')) = Some d \<and>
          conflictingAppointment (appointments after_cancel) None (cb_doctor (body_at ''10:00'')) d
            (cb_time (body_at ''10:00'')) = None"
    by blast
  then have free: "conflictingAppointment (appointments after_cancel) None 3 1706745600000 ''10:00'' = None"
    by (simp add: body_at_def sample_Date_def)
  from inv kept created found refused free show ?thesis
    by blast
qed

section \<open>Properties of the cancellation\<close>

lemma map_same_doc:
  assumes "ids_distinct docs" and "a \<in> set docs"
  shows "map (\<lambda>b. if a_id b = a_id a then a else b) docs = docs"
proof -
  have "\<forall>b\<in>set docs. (if a_id b = a_id a then a else b) = b"
    using same_id_same_doc [OF assms] by auto
  then show ?thesis by (simp add: map_idI)
qed

lemma find_replaced:
  "a \<in> set docs \<Longrightarrow> a_id a' = a_id a \<Longrightarrow>
     Appointment_findById (map (\<lambda>b. if a_id b = a_id a then a' else b) docs) (a_id a) = Some a'"
  by (induction docs) (auto simp: Appointment_findById_def)

text \<open>
  C7, as the code has it. Cancelling an existing appointment (one the store holds, so one
  that passes the schema's validation) answers 200 and never removes the document: the
  collection keeps its length and its other documents, and the document with that
  identifier has status cancelled, \<open>updatedBy\<close> the authenticated account, \<open>updatedAt\<close>
  refreshed to the time of the save when one of the two changed, and every other field
  as before. This holds for every prior status.
\<close>

theorem cancel_changes_three_fields:
  assumes "Appointment_findById (appointments s) i = Some a"
    and "appointment_valid a" and "ids_distinct (appointments s)"
  shows "\<exists>a'. cancel_appointment now req_user i s =
             (\<lparr> res_status = 200, res_success = True,
                res_message = Some ''Appointment cancelled successfully'',
                res_data = No_data \<rparr>,
              s\<lparr>appointments := map (\<lambda>b. if a_id b = i then a' else b) (appointments s)\<rparr>) \<and>
           Appointment_findById (appointments (snd (cancel_appointment now req_user i s))) i = Some a' \<and>
           length (appointments (snd (cancel_appointment now req_user i s))) = length (appointments s) \<and>
           a_status a' = ''cancelled'' \<and>
           a_updatedBy a' = Some (u_id req_user) \<and>
           a_updatedAt a' =
             (if a_status a = ''cancelled'' \<and> a_updatedBy a = Some (u_id req_user)
              then a_updatedAt a else now) \<and>
           a_id a' = a_id a \<and> a_patient a' = a_patient a \<and> a_doctor a' = a_doctor a \<and>
           a_type a' = a_type a \<and> a_date a' = a_date a \<and> a_time a' = a_time a \<and>
           a_duration a' = a_duration a \<and> a_reason a' = a_reason a \<and> a_notes a' = a_notes a \<and>
           a_symptoms a' = a_symptoms a \<and> a_diagnosis a' = a_diagnosis a \<and>
           a_treatment a' = a_treatment a \<and> a_prescriptions a' = a_prescriptions a \<and>
           a_followUpRequired a' = a_followUpRequired a \<and>
           a_followUpDate a' = a_followUpDate a \<and> a_createdBy a' = a_createdBy a \<and>
           a_createdAt a' = a_createdAt a"
proof -
  from findById_Some [OF assms(1)] have a: "a \<in> set (appointments s)" "a_id a = i"
    by simp_all
  let ?new = "a\<lparr>a_status := ''cancelled'', a_updatedBy := Some (u_id req_user)\<rparr>"
  have valid: "appointment_valid ?new"
    using assms(2) by (rule cancelled_valid)
  show ?thesis
  proof (cases "a_status a = ''cancelled'' \<and> a_updatedBy a = Some (u_id req_user)")
    case True
    then have same: "?new = a" by simp
    have run: "cancel_appointment now req_user i s =
        (\<lparr> res_status = 200, res_success = True,
           res_message = Some ''Appointment cancelled successfully'',
           res_data = No_data \<rparr>,
         s\<lparr>appointments := map (\<lambda>b. if a_id b = i then a else b) (appointments s)\<rparr>)"
      using assms(1) valid same map_same_doc [OF assms(3) a(1)] a(2)
      by (simp add: cancel_appointment_def Appointment_update_def)
    have "Appointment_findById (appointments (snd (cancel_appointment now req_user i s))) i = Some a"
      unfolding run using find_replaced [OF a(1), of a] a(2) by simp
    with run True show ?thesis
      by (intro exI [of _ a]) simp
  next
    case False
    let ?a' = "?new\<lparr>a_updatedAt := now\<rparr>"
    from False have changed: "?new \<noteq> a"
      by (metis appointment.select_convs(5) appointment.select_convs(18)
            appointment.surjective appointment.update_convs(5) appointment.update_convs(18))
    have run: "cancel_appointment now req_user i s =
        (\<lparr> res_status = 200, res_success = True,
           res_message = Some ''Appointment cancelled successfully'',
           res_data = No_data \<rparr>,
         s\<lparr>appointments := map (\<lambda>b. if a_id b = i then ?a' else b) (appointments s)\<rparr>)"
      using assms(1) valid changed a(2)
      by (simp add: cancel_appointment_def Appointment_update_def same_slot_def)
    have "Appointment_findById (appointments (snd (cancel_appointment now req_user i s))) i = Some ?a'"
      unfolding run using find_replaced [OF a(1), of ?a'] a(2) by simp
    with run False show ?thesis
      by (intro exI [of _ ?a']) auto
  qed
qed

lemma sample_db_facts:
  "Appointment_findById (appointments sample_db) 100 = Some apt_A"
  "appointment_valid apt_A"
  "ids_distinct (appointments sample_db)"
  by (simp_all add: Appointment_findById_def sample_db_def apt_A_def appointment_valid_def
        appointment_types_def appointment_statuses_def char_in_def maxlength_def ids_distinct_def)

theorem cancel_changes_three_fields_witness:
  "Appointment_findById (appointments sample_db) 100 = Some apt_A \<and>
   appointment_valid apt_A \<and> ids_distinct (appointments sample_db) \<and>
   (\<exists>a'. Appointment_findById
           (appointments (snd (cancel_appointment 1706000001000 user_doctor 100 sample_db))) 100
           = Some a' \<and>
         a_status a' = ''cancelled'' \<and> a_updatedBy a' = Some 3 \<and>
         a_updatedAt a' = 1706000001000 \<and> a_time a' = ''10:00'' \<and> a_duration a' = 30 \<and>
         a_reason a' = ''Annual checkup'' \<and> a_createdBy a' = 3)"
proof -
  from cancel_changes_three_fields [OF sample_db_facts, of 1706000001000 user_doctor]
  obtain a' where "Appointment_findById
           (appointments (snd (cancel_appointment 1706000001000 user_doctor 100 sample_db))) 100
           = Some a'"
    and "a_status a' = ''cancelled''" and "a_updatedBy a' = Some (u_id user_doctor)"
    and "a_updatedAt a' =
           (if a_status apt_A = ''cancelled'' \<and> a_updatedBy apt_A = Some (u_id user_doctor)
            then a_updatedAt apt_A else 1706000001000)"
    and "a_time a' = a_time apt_A" and "a_duration a' = a_duration apt_A"
    and "a_reason a' = a_reason apt_A" and "a_createdBy a' = a_createdBy apt_A"
    by blast
  then have "Appointment_findById
           (appointments (snd (cancel_appointment 1706000001000 user_doctor 100 sample_db))) 100
           = Some a' \<and>
         a_status a' = ''cancelled'' \<and> a_updatedBy a' = Some 3 \<and>
         a_updatedAt a' = 1706000001000 \<and> a_time a' = ''10:00'' \<and> a_duration a' = 30 \<and>
         a_reason a' = ''Annual checkup'' \<and> a_createdBy a' = 3"
    by (simp add: apt_A_def user_doctor_def)
  then show ?thesis
    using sample_db_facts by blast
qed

text \<open>
  Cancelling the sample appointment: beside \<open>status\<close> and \<open>updatedBy\<close>, the stored
  document has a new \<open>updatedAt\<close>.
\<close>

theorem cancel_touches_updatedAt_counterexample:
  "Appointment_findById (appointments sample_db) 100 = Some apt_A \<and>
   Appointment_findById
     (appointments (snd (cancel_appointment 1706000001000 user_doctor 100 sample_db))) 100 =
     Some (apt_A\<lparr>a_status := ''cancelled'', a_updatedBy := Some 3,
                 a_updatedAt := 1706000001000\<rparr>) \<and>
   a_updatedAt (apt_A\<lparr>a_status := ''cancelled'', a_updatedBy := Some 3,
                       a_updatedAt := 1706000001000\<rparr>) \<noteq> a_updatedAt apt_A"
  by (simp add: cancel_appointment_def Appointment_findById_def sample_db_def apt_A_def
        Appointment_update_def appointment_valid_def appointment_types_def
        appointment_statuses_def char_in_def maxlength_def same_slot_def user_doctor_def)

section \<open>Properties of the soft delete\<close>

lemma patient_valid_flag:
  "patient_valid em (p\<lparr>p_isActive := b\<rparr>) = patient_valid em p"
  by (simp add: patient_valid_def)

lemma findActive_Some:
  "Patient_findActive docs i = Some p \<Longrightarrow> p \<in> set docs \<and> p_id p = i \<and> p_isActive p"
  by (auto simp: Patient_findActive_def find_Some_iff)

lemma same_id_same_patient:
  "patient_ids_distinct docs \<Longrightarrow> p \<in> set docs \<Longrightarrow> q \<in> set docs \<Longrightarrow> p_id q = p_id p \<Longrightarrow> q = p"
  by (auto simp: patient_ids_distinct_def distinct_map dest: inj_onD)

lemma deleted_not_found:
  assumes "holds_deleted p s"
  shows "Patient_findActive (patients s) (p_id p) = None"
    and "find (\<lambda>q. p_id q = p_id p) (patients s) = Some p"
proof -
  from assms have d: "patient_ids_distinct (patients s)" and p: "p \<in> set (patients s)"
    and off: "\<not> p_isActive p"
    by (simp_all add: holds_deleted_def)
  have only: "\<forall>q\<in>set (patients s). p_id q = p_id p \<longrightarrow> q = p"
    using same_id_same_patient [OF d p] by blast
  then show "Patient_findActive (patients s) (p_id p) = None"
    using off by (auto simp: Patient_findActive_def find_None_iff)
  obtain q where q: "find (\<lambda>q. p_id q = p_id p) (patients s) = Some q"
    using p by (cases "find (\<lambda>q. p_id q = p_id p) (patients s)") (auto simp: find_None_iff)
  then have "q \<in> set (patients s)" "p_id q = p_id p"
    by (auto simp: find_Some_iff)
  with only q show "find (\<lambda>q. p_id q = p_id p) (patients s) = Some p" by auto
qed

lemma patient_insert_keeps:
  assumes "Patient_insert em q docs = Inr (doc, docs')"
    and "patient_ids_distinct docs" and "p \<in> set docs"
  shows "patient_ids_distinct docs' \<and> p \<in> set docs'"
proof -
  from assms(1) have "docs' = docs @ [q]" "\<not> list_ex (\<lambda>x. p_id x = p_id q) docs"
    by (auto simp: Patient_insert_def split: if_splits)
  then show ?thesis
    using assms(2,3) by (auto simp: patient_ids_distinct_def list_ex_iff)
qed

lemma patient_update_keeps:
  assumes "Patient_update em now old new docs = Inr (doc, docs')"
    and "p_id new = p_id old" and "p_id old \<noteq> p_id p"
    and "patient_ids_distinct docs" and "p \<in> set docs"
  shows "patient_ids_distinct docs' \<and> p \<in> set docs'"
proof (cases "new = old")
  case True
  with assms show ?thesis by (simp add: Patient_update_def split: if_splits)
next
  case False
  with assms(1) have docs':
    "docs' = map (\<lambda>q. if p_id q = p_id old then new\<lparr>p_updatedAt := now\<rparr> else q) docs"
    by (auto simp: Patient_update_def split: if_splits)
  have ids: "map p_id docs' = map p_id docs"
    unfolding docs' using assms(2) by (induction docs) auto
  have "p \<in> set docs'"
    unfolding docs' using assms(3,5) by force
  with ids assms(4) show ?thesis
    by (simp add: patient_ids_distinct_def)
qed

lemma create_patient_keeps:
  assumes "holds_deleted p s"
  shows "holds_deleted p (snd (create_patient em now oid body s))"
  using assms patient_insert_keeps
  by (auto simp: create_patient_def holds_deleted_def
        split: option.splits sum.splits)

lemma update_patient_keeps:
  assumes "holds_deleted p s"
  shows "holds_deleted p (snd (update_patient em now i body s))"
proof (cases "Patient_findActive (patients s) i")
  case None
  with assms show ?thesis by (simp add: update_patient_def)
next
  case (Some old)
  then have old: "old \<in> set (patients s)" "p_id old = i" "p_isActive old"
    using findActive_Some by blast+
  from assms have inv: "patient_ids_distinct (patients s)" "p \<in> set (patients s)" "\<not> p_isActive p"
    by (simp_all add: holds_deleted_def)
  from old(3) inv(3) have other: "p_id old \<noteq> p_id p"
    using same_id_same_patient [OF inv(1) inv(2) old(1)] by auto
  have id: "p_id (Object_assign_patient old body) = p_id old"
    by (simp add: Object_assign_patient_def)
  show ?thesis
  proof (cases "Patient_update em now old (Object_assign_patient old body) (patients s)")
    case (Inl err)
    with Some assms show ?thesis by (simp add: update_patient_def)
  next
    case (Inr r)
    obtain doc docs' where r: "r = (doc, docs')" by (cases r)
    from patient_update_keeps [OF Inr [unfolded r] id other inv(1,2)]
    show ?thesis
      using Some Inr r assms by (simp add: update_patient_def holds_deleted_def)
  qed
qed

lemma delete_patient_keeps:
  assumes "holds_deleted p s"
  shows "holds_deleted p (snd (delete_patient em now i s))"
proof (cases "Patient_findActive (patients s) i")
  case None
  with assms show ?thesis by (simp add: delete_patient_def)
next
  case (Some old)
  then have old: "old \<in> set (patients s)" "p_id old = i" "p_isActive old"
    using findActive_Some by blast+
  from assms have inv: "patient_ids_distinct (patients s)" "p \<in> set (patients s)" "\<not> p_isActive p"
    by (simp_all add: holds_deleted_def)
  from old(3) inv(3) have other: "p_id old \<noteq> p_id p"
    using same_id_same_patient [OF inv(1) inv(2) old(1)] by auto
  have id: "p_id (old\<lparr>p_isActive := False\<rparr>) = p_id old" by simp
  show ?thesis
  proof (cases "Patient_update em now old (old\<lparr>p_isActive := False\<rparr>) (patients s)")
    case (Inl err)
    with Some assms show ?thesis by (simp add: delete_patient_def)
  next
    case (Inr r)
    obtain doc docs' where r: "r = (doc, docs')" by (cases r)
    from patient_update_keeps [OF Inr [unfolded r] id other inv(1,2)]
    show ?thesis
      using Some Inr r assms by (simp add: delete_patient_def holds_deleted_def)
  qed
qed

lemma other_routes_keep_patients:
  "patients (snd (get_availability nd doctorId dp s)) = patients s"
  "patients (snd (create_appointment nd now oid u cbody s)) = patients s"
  "patients (snd (update_appointment nd now u i ubody s)) = patients s"
  "patients (snd (cancel_appointment now u i s)) = patients s"
  "patients (snd (get_patient i s)) = patients s"
  "patients (snd (update_user ok u i usrbody s)) = patients s"
  by (auto simp: get_availability_def create_appointment_def update_appointment_def
        cancel_appointment_def get_patient_def update_user_def Let_def
        split: option.splits sum.splits guard.splits)

lemma route_keeps_deleted:
  assumes "holds_deleted p s"
  shows "holds_deleted p (snd (route sv r s))"
proof (cases r)
  case (POST_patient now oid body)
  with assms show ?thesis by (simp add: create_patient_keeps)
next
  case (PUT_patient now i body)
  with assms show ?thesis by (simp add: update_patient_keeps)
next
  case (DELETE_patient now i)
  with assms show ?thesis by (simp add: delete_patient_keeps)
qed (use assms in \<open>simp_all add: holds_deleted_def other_routes_keep_patients\<close>)

lemma serve_keeps_deleted:
  "holds_deleted p s \<Longrightarrow> holds_deleted p (serve sv rs s)"
  by (induction rs arbitrary: s) (simp_all add: route_keeps_deleted)

lemma delete_patient_run:
  assumes "Patient_findActive (patients s) i = Some p" and "patient_valid em p"
  shows "delete_patient em now i s =
           (\<lparr> res_status = 200, res_success = True,
              res_message = Some ''Patient deleted successfully'', res_data = No_data \<rparr>,
            s\<lparr>patients :=
                map (\<lambda>q. if p_id q = i then p\<lparr>p_isActive := False, p_updatedAt := now\<rparr> else q)
                  (patients s)\<rparr>)"
proof -
  from findActive_Some [OF assms(1)] have p: "p_id p = i" "p_isActive p" by simp_all
  then have changed: "p\<lparr>p_isActive := False\<rparr> \<noteq> p"
    by (metis patient.select_convs(17) patient.surjective patient.update_convs(17))
  show ?thesis
    using assms p changed
    by (simp add: delete_patient_def Patient_update_def patient_valid_flag)
qed

lemma replace_keeps_ids:
  "p_id p' = i \<Longrightarrow> map p_id (map (\<lambda>q. if p_id q = i then p' else q) docs) = map p_id docs"
  by (induction docs) auto

lemma deleted_after_delete:
  assumes "Patient_findActive (patients s) i = Some p" and "patient_ids_distinct (patients s)"
  shows "holds_deleted (p\<lparr>p_isActive := False, p_updatedAt := now\<rparr>)
           (s\<lparr>patients :=
               map (\<lambda>q. if p_id q = i then p\<lparr>p_isActive := False, p_updatedAt := now\<rparr> else q)
                 (patients s)\<rparr>)"
proof -
  from findActive_Some [OF assms(1)] have p: "p \<in> set (patients s)" "p_id p = i" by simp_all
  let ?p' = "p\<lparr>p_isActive := False, p_updatedAt := now\<rparr>"
  let ?docs' = "map (\<lambda>q. if p_id q = i then ?p' else q) (patients s)"
  have "p_id ?p' = i" using p(2) by simp
  then have ids: "map p_id ?docs' = map p_id (patients s)"
    by (rule replace_keeps_ids)
  have distinct: "patient_ids_distinct ?docs'"
    unfolding patient_ids_distinct_def ids using assms(2) by (simp add: patient_ids_distinct_def)
  have "?p' \<in> set ?docs'"
    using p by force
  with distinct show ?thesis
    by (simp add: holds_deleted_def)
qed

text \<open>
  C6, as the code has it. Deleting an active patient (a record the store holds, so one
  that passes the schema's validation) answers 200 and keeps the record: it is the old
  one with \<open>isActive\<close> false and \<open>updatedAt\<close> refreshed to the time of the save, every
  other field as before. After any further requests, GET by that identifier answers 404
  and the store still holds that very record.
\<close>

theorem soft_delete_keeps_record:
  assumes "Patient_findActive (patients s) i = Some p"
    and "patient_valid (sv_email_match sv) p"
    and "patient_ids_distinct (patients s)"
  shows "delete_patient (sv_email_match sv) now i s =
           (\<lparr> res_status = 200, res_success = True,
              res_message = Some ''Patient deleted successfully'', res_data = No_data \<rparr>,
            s\<lparr>patients :=
                map (\<lambda>q. if p_id q = i then p\<lparr>p_isActive := False, p_updatedAt := now\<rparr> else q)
                  (patients s)\<rparr>) \<and>
         fst (get_patient i (serve sv rs (snd (delete_patient (sv_email_match sv) now i s)))) =
           \<lparr> res_status = 404, res_success = False, res_message = Some ''Patient not found'',
             res_data = No_data \<rparr> \<and>
         find (\<lambda>q. p_id q = i)
           (patients (serve sv rs (snd (delete_patient (sv_email_match sv) now i s)))) =
           Some (p\<lparr>p_isActive := False, p_updatedAt := now\<rparr>)"
proof -
  let ?p' = "p\<lparr>p_isActive := False, p_updatedAt := now\<rparr>"
  note run = delete_patient_run [OF assms(1,2), of now]
  from findActive_Some [OF assms(1)] have id: "p_id ?p' = i" by simp
  have "holds_deleted ?p' (snd (delete_patient (sv_email_match sv) now i s))"
    unfolding run using deleted_after_delete [OF assms(1,3)] by simp
  then have "holds_deleted ?p' (serve sv rs (snd (delete_patient (sv_email_match sv) now i s)))"
    by (rule serve_keeps_deleted)
  from deleted_not_found [OF this] id run show ?thesis
    by (simp add: get_patient_def not_found_def failure_def)
qed

lemma sample_patient_facts:
  "Patient_findActive (patients sample_db) 1 = Some patient_P"
  "patient_valid (sv_email_match sample_server) patient_P"
  "patient_ids_distinct (patients sample_db)"
  by (simp_all add: Patient_findActive_def sample_db_def patient_P_def patient_valid_def
        sample_server_def genders_def address_valid_def emergencyContact_valid_def
        blood_types_def maxlength_def patient_ids_distinct_def)

theorem soft_delete_keeps_record_witness:
  "Patient_findActive (patients sample_db) 1 = Some patient_P \<and>
   patient_valid (sv_email_match sample_server) patient_P \<and>
   patient_ids_distinct (patients sample_db) \<and>
   fst (get_patient 1
         (serve sample_server
            [PUT_patient 1706000002000 1 (empty_patient_body\<lparr>pb_isActive := Some True\<rparr>),
             POST_patient 1706000003000 1 (empty_patient_body\<lparr>pb_isActive := Some True\<rparr>),
             DELETE_patient 1706000004000 1]
            (snd (delete_patient (sv_email_match sample_server) 1706000001000 1 sample_db)))) =
     \<lparr> res_status = 404, res_success = False, res_message = Some ''Patient not found'',
       res_data = No_data \<rparr> \<and>
   find (\<lambda>q. p_id q = 1)
     (patients
        (serve sample_server
           [PUT_patient 1706000002000 1 (empty_patient_body\<lparr>pb_isActive := Some True\<rparr>),
            POST_patient 1706000003000 1 (empty_patient_body\<lparr>pb_isActive := Some True\<rparr>),
            DELETE_patient 1706000004000 1]
           (snd (delete_patient (sv_email_match sample_server) 1706000001000 1 sample_db)))) =
     Some (patient_P\<lparr>p_isActive := False, p_updatedAt := 1706000001000\<rparr>)"
  using sample_patient_facts
        soft_delete_keeps_record [OF sample_patient_facts, of 1706000001000
          "[PUT_patient 1706000002000 1 (empty_patient_body\<lparr>pb_isActive := Some True\<rparr>),
            POST_patient 1706000003000 1 (empty_patient_body\<lparr>pb_isActive := Some True\<rparr>),
            DELETE_patient 1706000004000 1]"]
  by blast

text \<open>
  Deleting the sample patient: beside \<open>isActive\<close>, the stored record has a new
  \<open>updatedAt\<close>.
\<close>

theorem soft_delete_touches_updatedAt_counterexample:
  "Patient_findActive (patients sample_db) 1 = Some patient_P \<and>
   find (\<lambda>q. p_id q = 1)
     (patients (snd (delete_patient (sv_email_match sample_server) 1706000001000 1 sample_db))) =
     Some (patient_P\<lparr>p_isActive := False, p_updatedAt := 1706000001000\<rparr>) \<and>
   p_updatedAt (patient_P\<lparr>p_isActive := False, p_updatedAt := 1706000001000\<rparr>) \<noteq>
     p_updatedAt patient_P"
proof -
  have "p_updatedAt patient_P = 1700000000000" by (simp add: patient_P_def)
  then show ?thesis
    using sample_patient_facts(1)
          delete_patient_run [OF sample_patient_facts(1,2), of 1706000001000]
    by (simp add: sample_db_def patient_P_def)
qed

section \<open>Properties of the account update\<close>

lemma sanitize_password: "usr_password (sanitize req_user body) = None"
  by (simp add: sanitize_def)

lemma sanitize_role:
  "u_role req_user \<noteq> ''admin'' \<Longrightarrow> truthy (usr_role body) \<Longrightarrow>
     usr_role (sanitize req_user body) = None"
  by (simp add: sanitize_def)

lemma replace_same_field:
  assumes "distinct (map u_id docs)" and "old \<in> set docs" and "f new = f old"
  shows "map f (map (\<lambda>v. if u_id v = u_id old then new else v) docs) = map f docs"
proof -
  have "\<forall>v\<in>set docs. f (if u_id v = u_id old then new else v) = f v"
    using assms by (auto simp: distinct_map dest: inj_onD)
  then show ?thesis by simp
qed

lemma update_user_cases:
  "snd (update_user ok req_user i body s) = s \<or>
   (\<exists>old. old \<in> set (users s) \<and>
      snd (update_user ok req_user i body s) =
        s\<lparr>users := map (\<lambda>v. if u_id v = u_id old
                               then Object_assign_user old (sanitize req_user body) else v)
                     (users s)\<rparr>)"
proof (cases "find (\<lambda>u. u_id u = i \<and> u_isActive u) (users s)")
  case None
  then show ?thesis by (simp add: update_user_def)
next
  case (Some old)
  then have "old \<in> set (users s)" by (auto simp: find_Some_iff)
  with Some show ?thesis
    by (auto simp: update_user_def User_save_def split: if_splits)
qed

lemma field_kept:
  assumes "user_ids_distinct (users s)"
    and "\<And>old. f (Object_assign_user old (sanitize req_user body)) = f old"
  shows "map f (users (snd (update_user ok req_user i body s))) = map f (users s)"
proof -
  from assms(1) have d: "distinct (map u_id (users s))" by (simp add: user_ids_distinct_def)
  from update_user_cases [of ok req_user i body s] show ?thesis
  proof
    assume "snd (update_user ok req_user i body s) = s"
    then show ?thesis by simp
  next
    assume "\<exists>old. old \<in> set (users s) \<and>
      snd (update_user ok req_user i body s) =
        s\<lparr>users := map (\<lambda>v. if u_id v = u_id old
                               then Object_assign_user old (sanitize req_user body) else v)
                     (users s)\<rparr>"
    then obtain old where old: "old \<in> set (users s)"
      and run: "snd (update_user ok req_user i body s) =
        s\<lparr>users := map (\<lambda>v. if u_id v = u_id old
                               then Object_assign_user old (sanitize req_user body) else v)
                     (users s)\<rparr>"
      by blast
    from replace_same_field [OF d old, of f, OF assms(2)] run show ?thesis
      by simp
  qed
qed

lemma empty_role_refused:
  assumes "usr_role body = Some []" and "u_role req_user \<noteq> ''admin''"
    and "\<forall>docs u. ok docs u \<longrightarrow> u_role u \<noteq> []"
  shows "snd (update_user ok req_user i body s) = s"
proof -
  have kept: "usr_role (sanitize req_user body) = Some []"
    using assms(1) by (simp add: sanitize_def truthy_def)
  have "u_role (Object_assign_user usr (sanitize req_user body)) = []" for usr
    using kept by (simp add: Object_assign_user_def assign_def)
  then have "\<not> ok docs (Object_assign_user usr (sanitize req_user body))" for docs usr
    using assms(3) by blast
  then show ?thesis
    by (auto simp: update_user_def User_save_def split: option.splits)
qed

text \<open>
  C10, as the code has it. Whoever calls and whatever the body holds, the body the
  handler works with has no password and no stored password changes. For a caller who
  is not an admin, a role in the body that is a non-empty string is deleted (an empty
  one is falsy and stays), and when the body's role is not the empty string no stored
  role changes; nor does one with the empty string, provided that the account schema
  refuses an empty role.
\<close>

theorem user_update_keeps_password:
  "usr_password (sanitize req_user body) = None \<and>
   (user_ids_distinct (users s) \<longrightarrow>
      map u_password (users (snd (update_user ok req_user i body s))) =
        map u_password (users s)) \<and>
   (u_role req_user \<noteq> ''admin'' \<and> truthy (usr_role body) \<longrightarrow>
      usr_role (sanitize req_user body) = None) \<and>
   (user_ids_distinct (users s) \<and> u_role req_user \<noteq> ''admin'' \<and> usr_role body \<noteq> Some [] \<longrightarrow>
      map u_role (users (snd (update_user ok req_user i body s))) = map u_role (users s)) \<and>
   (user_ids_distinct (users s) \<and> u_role req_user \<noteq> ''admin'' \<and>
    (\<forall>docs u. ok docs u \<longrightarrow> u_role u \<noteq> []) \<longrightarrow>
      map u_role (users (snd (update_user ok req_user i body s))) = map u_role (users s))"
proof -
  have password: "usr_password (sanitize req_user body) = None"
    by (rule sanitize_password)
  have passwords: "map u_password (users (snd (update_user ok req_user i body s))) =
      map u_password (users s)" if "user_ids_distinct (users s)"
    using that by (rule field_kept) (simp add: Object_assign_user_def sanitize_password assign_def)
  have stripped: "usr_role (sanitize req_user body) = None"
    if "u_role req_user \<noteq> ''admin''" and "usr_role body \<noteq> Some []"
    using that by (cases "usr_role body") (simp_all add: sanitize_def truthy_def)
  have roles: "map u_role (users (snd (update_user ok req_user i body s))) = map u_role (users s)"
    if "user_ids_distinct (users s)" and "u_role req_user \<noteq> ''admin''"
      and "usr_role body \<noteq> Some []"
    using that(1)
    by (rule field_kept) (simp add: Object_assign_user_def stripped [OF that(2,3)] assign_def)
  have refused: "map u_role (users (snd (update_user ok req_user i body s))) = map u_role (users s)"
    if "user_ids_distinct (users s)" and "u_role req_user \<noteq> ''admin''"
      and "\<forall>docs u. ok docs u \<longrightarrow> u_role u \<noteq> []"
  proof (cases "usr_role body = Some []")
    case True
    from empty_role_refused [OF True that(2,3)] show ?thesis by simp
  next
    case False
    with that show ?thesis by (simp add: roles)
  qed
  from password passwords sanitize_role [of req_user body] roles refused show ?thesis
    by blast
qed

theorem user_update_keeps_password_witness:
  "user_ids_distinct (users sample_db) \<and> u_role user_staff \<noteq> ''admin'' \<and>
   truthy (usr_role takeover_body) \<and> usr_role takeover_body \<noteq> Some [] \<and>
   \<not> sv_schema_ok sample_server (users sample_db) (user_staff\<lparr>u_role := []\<rparr>) \<and>
   usr_password takeover_body = Some ''hunter2'' \<and>
   res_status (fst (update_user (sv_schema_ok sample_server) user_staff 4 takeover_body sample_db))
     = 200 \<and>
   map u_firstName
     (users (snd (update_user (sv_schema_ok sample_server) user_staff 4 takeover_body sample_db)))
     = [''Mer'', ''Sammy''] \<and>
   map u_password
     (users (snd (update_user (sv_schema_ok sample_server) user_staff 4 takeover_body sample_db)))
     = map u_password (users sample_db) \<and>
   map u_role
     (users (snd (update_user (sv_schema_ok sample_server) user_staff 4 takeover_body sample_db)))
     = map u_role (users sample_db)"
proof -
  have h: "user_ids_distinct (users sample_db)" "u_role user_staff \<noteq> ''admin''"
      "truthy (usr_role takeover_body)" "usr_role takeover_body \<noteq> Some []"
      "usr_password takeover_body = Some ''hunter2''"
    by (simp_all add: user_ids_distinct_def sample_db_def user_doctor_def user_staff_def
          takeover_body_def empty_user_body_def truthy_def)
  have schema: "\<forall>docs u. sv_schema_ok sample_server docs u \<longrightarrow> u_role u \<noteq> []"
    by (auto simp: sample_server_def)
  have refuses: "\<not> sv_schema_ok sample_server (users sample_db) (user_staff\<lparr>u_role := []\<rparr>)"
    by (simp add: sample_server_def)
  have run: "res_status (fst (update_user (sv_schema_ok sample_server) user_staff 4
                                takeover_body sample_db)) = 200 \<and>
      map u_firstName (users (snd (update_user (sv_schema_ok sample_server) user_staff 4
                                     takeover_body sample_db))) = [''Mer'', ''Sammy'']"
    by (simp add: update_user_def sample_db_def user_doctor_def user_staff_def
          takeover_body_def empty_user_body_def sanitize_def truthy_def User_save_def
          sample_server_def Object_assign_user_def assign_def)
  from user_update_keeps_password
         [where req_user = user_staff and body = takeover_body and s = sample_db
            and ok = "sv_schema_ok sample_server" and i = 4] h schema refuses run
  show ?thesis by blast
qed

text \<open>
  An account that is not an admin sends the empty string as role: the handler's test
  \<^verbatim>\<open>req.body.role\<close> is falsy and the field is not deleted.
\<close>

theorem falsy_role_not_stripped_counterexample:
  "u_role user_staff \<noteq> ''admin'' \<and>
   usr_role (empty_user_body\<lparr>usr_role := Some []\<rparr>) = Some [] \<and>
   usr_role (sanitize user_staff (empty_user_body\<lparr>usr_role := Some []\<rparr>)) = Some [] \<and>
   usr_role (sanitize user_staff (empty_user_body\<lparr>usr_role := Some []\<rparr>)) \<noteq> None"
  by (simp add: user_staff_def sanitize_def truthy_def empty_user_body_def)

section \<open>The age brackets at the eighteenth birthday\<close>

lemma march_stamps:
  "timestamp march_2019 = 1551398400000"
  "timestamp (years_before 18 march_2019) = 983404800000"
  by (simp_all add: timestamp_def years_before_def march_2019_def days_from_civil_def Let_def)

lemma january_stamps:
  "timestamp january_2018 = 1514764800000"
  "timestamp (years_before 18 january_2018) = 946684800000"
  by (simp_all add: timestamp_def years_before_def january_2018_def days_from_civil_def Let_def)

lemma bracket_18_34:
  assumes "18 * year_ms \<le> now - dateOfBirth" and "now - dateOfBirth < 35 * year_ms"
  shows "age_bracket (dashboard_age now dateOfBirth) = ''18-34''"
proof -
  define x where "x = now - dateOfBirth"
  have "568036800000 \<le> x" and "x < 1104516000000"
    using assms by (simp_all add: x_def year_ms_def)
  then have "18 \<le> x div 31557600000" and "x div 31557600000 < 35"
    by arith+
  then show ?thesis
    by (simp add: age_bracket_def dashboard_age_def year_ms_def x_def)
qed

lemma count_list_map:
  "count_list (map f xs) b = length (filter (\<lambda>x. f x = b) xs)"
  by (induction xs) auto

lemma ageDistribution_entry:
  assumes "p \<in> set ps" and "p_isActive p"
    and "age_bracket (dashboard_age now (p_dateOfBirth p)) = b"
  shows "(b, length (filter (\<lambda>q. p_isActive q \<and>
                               age_bracket (dashboard_age now (p_dateOfBirth q)) = b) ps))
           \<in> set (ageDistribution now ps)"
proof -
  let ?f = "\<lambda>q. age_bracket (dashboard_age now (p_dateOfBirth q))"
  have "b \<in> set (map ?f (filter p_isActive ps))"
    using assms by force
  moreover have "count_list (map ?f (filter p_isActive ps)) b =
      length (filter (\<lambda>q. p_isActive q \<and> ?f q = b) ps)"
    by (simp add: count_list_map conj_commute)
  ultimately show ?thesis
    by (force simp: ageDistribution_def Let_def)
qed

text \<open>
  C4, as the code has it. The years of the aggregation are years of 365.25 days: an
  active patient born at least 18 and less than 35 such years before now has the
  bracket 18-34 (so not 0-17) and is among the patients counted under it. A birth date
  exactly 18 calendar years before now is so when those years hold five leap days
  (6575 days).
\<close>

theorem age_bracket_from_eighteen_years:
  "(p \<in> set ps \<and> p_isActive p \<and> 18 * year_ms \<le> now - p_dateOfBirth p \<and>
    now - p_dateOfBirth p < 35 * year_ms \<longrightarrow>
      age_bracket (dashboard_age now (p_dateOfBirth p)) = ''18-34'' \<and>
      age_bracket (dashboard_age now (p_dateOfBirth p)) \<noteq> ''0-17'' \<and>
      p \<in> set (filter (\<lambda>q. p_isActive q \<and>
                             age_bracket (dashboard_age now (p_dateOfBirth q)) = ''18-34'') ps) \<and>
      (''18-34'', length (filter (\<lambda>q. p_isActive q \<and>
                             age_bracket (dashboard_age now (p_dateOfBirth q)) = ''18-34'') ps))
        \<in> set (ageDistribution now ps)) \<and>
   (timestamp today - timestamp (years_before 18 today) = 6575 * 86400000 \<longrightarrow>
      age_bracket (dashboard_age (timestamp today) (timestamp (years_before 18 today)))
        = ''18-34'')"
proof (intro conjI impI)
  assume a: "p \<in> set ps \<and> p_isActive p \<and> 18 * year_ms \<le> now - p_dateOfBirth p \<and>
    now - p_dateOfBirth p < 35 * year_ms"
  then show b: "age_bracket (dashboard_age now (p_dateOfBirth p)) = ''18-34''"
    by (simp add: bracket_18_34)
  then show "age_bracket (dashboard_age now (p_dateOfBirth p)) \<noteq> ''0-17''"
    by simp
  from a b show "p \<in> set (filter (\<lambda>q. p_isActive q \<and>
                             age_bracket (dashboard_age now (p_dateOfBirth q)) = ''18-34'') ps)"
    by simp
  from a b show "(''18-34'', length (filter (\<lambda>q. p_isActive q \<and>
                             age_bracket (dashboard_age now (p_dateOfBirth q)) = ''18-34'') ps))
        \<in> set (ageDistribution now ps)"
    using ageDistribution_entry [of p ps now "''18-34''"] by blast
next
  assume "timestamp today - timestamp (years_before 18 today) = 6575 * 86400000"
  then show "age_bracket (dashboard_age (timestamp today) (timestamp (years_before 18 today)))
        = ''18-34''"
    by (intro bracket_18_34) (simp_all add: year_ms_def)
qed

theorem age_bracket_from_eighteen_years_witness:
  "patient_Q \<in> set [patient_P, patient_Q] \<and> p_isActive patient_Q \<and>
   18 * year_ms \<le> timestamp january_2018 - p_dateOfBirth patient_Q \<and>
   timestamp january_2018 - p_dateOfBirth patient_Q < 35 * year_ms \<and>
   timestamp january_2018 - timestamp (years_before 18 january_2018) = 6575 * 86400000 \<and>
   p_dateOfBirth patient_Q = timestamp (years_before 18 january_2018) \<and>
   age_bracket (dashboard_age (timestamp january_2018) (p_dateOfBirth patient_Q)) = ''18-34'' \<and>
   (''18-34'', 1) \<in> set (ageDistribution (timestamp january_2018) [patient_P, patient_Q])"
proof -
  have h: "patient_Q \<in> set [patient_P, patient_Q] \<and> p_isActive patient_Q \<and>
      18 * year_ms \<le> timestamp january_2018 - p_dateOfBirth patient_Q \<and>
      timestamp january_2018 - p_dateOfBirth patient_Q < 35 * year_ms"
    by (simp add: patient_Q_def patient_P_def january_stamps year_ms_def)
  have days: "timestamp january_2018 - timestamp (years_before 18 january_2018) = 6575 * 86400000"
    and born: "p_dateOfBirth patient_Q = timestamp (years_before 18 january_2018)"
    by (simp_all add: january_stamps patient_Q_def)
  have young: "age_bracket (dashboard_age (timestamp january_2018) (p_dateOfBirth patient_P)) = ''0-17''"
    by (simp add: january_stamps patient_P_def dashboard_age_def year_ms_def age_bracket_def)
  note inst = age_bracket_from_eighteen_years
      [where p = patient_Q and ps = "[patient_P, patient_Q]" and now = "timestamp january_2018"
         and today = january_2018]
  from inst h have adult: "age_bracket (dashboard_age (timestamp january_2018) (p_dateOfBirth patient_Q)) = ''18-34''"
    by blast
  from inst h have "(''18-34'', length (filter (\<lambda>q. p_isActive q \<and>
        age_bracket (dashboard_age (timestamp january_2018) (p_dateOfBirth q)) = ''18-34'')
          [patient_P, patient_Q]))
        \<in> set (ageDistribution (timestamp january_2018) [patient_P, patient_Q])"
    by blast
  moreover have "length (filter (\<lambda>q. p_isActive q \<and>
        age_bracket (dashboard_age (timestamp january_2018) (p_dateOfBirth q)) = ''18-34'')
          [patient_P, patient_Q]) = 1"
    using young adult h by simp
  ultimately have "(''18-34'', 1) \<in> set (ageDistribution (timestamp january_2018) [patient_P, patient_Q])"
    by simp
  with h days born adult show ?thesis by blast
qed

text \<open>
  A patient born on 1 March 2001, on 1 March 2019 at the same time of day: exactly 18
  calendar years, which are 6574 days (four leap days), less than 18 times 365.25 days.
  The aggregation computes the age 17 and counts the patient in the bracket 0-17, while
  the schema's own virtual \<open>age\<close> is 18. (From 1 January 2000 to 1 January 2018 there
  are five leap days, and the bracket is 18-34.)
\<close>

theorem eighteenth_birthday_counterexample:
  "p_dateOfBirth patient_P = timestamp (years_before 18 march_2019) \<and>
   timestamp march_2019 - timestamp (years_before 18 march_2019) = 6574 * 86400000 \<and>
   dashboard_age (timestamp march_2019) (p_dateOfBirth patient_P) = 17 \<and>
   ageDistribution (timestamp march_2019) [patient_P] = [(''0-17'', 1)] \<and>
   age march_2019 (years_before 18 march_2019) = 18 \<and>
   age_bracket (age march_2019 (years_before 18 march_2019)) = ''18-34'' \<and>
   age_bracket (dashboard_age (timestamp january_2018) (timestamp (years_before 18 january_2018)))
     = ''18-34''"
proof -
  have born: "p_dateOfBirth patient_P = timestamp (years_before 18 march_2019)"
    by (simp add: march_stamps patient_P_def)
  have days: "timestamp march_2019 - timestamp (years_before 18 march_2019) = 6574 * 86400000"
    by (simp add: march_stamps)
  have seventeen: "dashboard_age (timestamp march_2019) (p_dateOfBirth patient_P) = 17"
    unfolding born by (simp add: march_stamps dashboard_age_def year_ms_def)
  have counted: "ageDistribution (timestamp march_2019) [patient_P] = [(''0-17'', 1)]"
    using seventeen by (simp add: ageDistribution_def age_bracket_def patient_P_def)
  have eighteen: "age march_2019 (years_before 18 march_2019) = 18"
    by (simp add: age_def years_before_def march_2019_def)
  have adult: "age_bracket (age march_2019 (years_before 18 march_2019)) = ''18-34''"
    unfolding eighteen by (simp add: age_bracket_def)
  have "dashboard_age (timestamp january_2018) (timestamp (years_before 18 january_2018)) = 18"
    by (simp add: january_stamps dashboard_age_def year_ms_def)
  then have other: "age_bracket (dashboard_age (timestamp january_2018)
                      (timestamp (years_before 18 january_2018))) = ''18-34''"
    by (simp add: age_bracket_def)
  from born days seventeen counted eighteen adult other show ?thesis
    by (intro conjI)
qed

end
